theory Spec2Isabelle
  imports Main
begin

section \<open>Data model of \<open>json_to_images.py\<close>\<close>

text \<open>
  A grid is a list of rows of colour indices. The JSON objects of a document are Python
  dictionaries read with \<open>dict.get(key, [])\<close>: a field is \<open>None\<close> when the key is absent
  and \<open>Some v\<close> when it is there, and \<open>dict_get\<close> is the lookup with the default \<open>[]\<close>.
  Cell counts are natural numbers (they are \<open>len\<close> results fed to \<open>range\<close>); pixel
  coordinates are integers.
\<close>

type_synonym grid = "int list list"

type_synonym color = "int \<times> int \<times> int"

record pair =
  pair_input :: "grid option"
  pair_output :: "grid option"

record document =
  train :: "pair list option"
  test :: "pair list option"

definition dict_get :: "'a list option \<Rightarrow> 'a list" where
  "dict_get v = (case v of None \<Rightarrow> [] | Some x \<Rightarrow> x)"

text \<open>
  The canvas of the drawing library is modelled by what the program asks of it: the size
  and background it is allocated with, and the sequence of draw calls in program order.
  \<open>Rectangle x0 y0 x1 y1 fill outline\<close> is \<open>draw.rectangle([x0, y0, x1, y1], fill, outline)\<close>
  and \<open>Text x y s fill\<close> is \<open>draw.text((x, y), s, fill)\<close>.
\<close>

datatype draw_op =
  Rectangle int int int int color color
| Text int int string color

record image =
  img_width :: int
  img_height :: int
  background :: color
  ops :: "draw_op list"

datatype exn = ValueError string | OtherException string

subsection \<open>Constants\<close>

definition ARC_COLORS :: "int \<rightharpoonup> color" where
  "ARC_COLORS = map_of
     [(0, (0, 0, 0)),
      (1, (0, 116, 217)),
      (2, (255, 65, 54)),
      (3, (46, 204, 64)),
      (4, (255, 220, 0)),
      (5, (170, 170, 170)),
      (6, (240, 18, 190)),
      (7, (255, 133, 27)),
      (8, (127, 219, 255)),
      (9, (128, 0, 0))]"

definition CELL_SIZE :: int where "CELL_SIZE = 20"
definition GRID_PADDING :: int where "GRID_PADDING = 0"
definition GRID_SPACING :: int where "GRID_SPACING = 20"
definition LABEL_HEIGHT :: int where "LABEL_HEIGHT = 30"
definition MARGIN :: int where "MARGIN = 20"

subsection \<open>Drawing primitives\<close>

text \<open>\<open>ARC_COLORS.get(color_id, ARC_COLORS[0])\<close>.\<close>

definition arc_color :: "int \<Rightarrow> color" where
  "arc_color color_id =
     (case ARC_COLORS color_id of Some c \<Rightarrow> c | None \<Rightarrow> the (ARC_COLORS 0))"

text \<open>
  \<open>grid[y][x] if y < len(grid) and x < len(grid[y]) else 0\<close>, followed by the colour lookup.
\<close>

definition cell_color :: "grid \<Rightarrow> nat \<Rightarrow> nat \<Rightarrow> color" where
  "cell_color grid y x =
     (let color_id = (if y < length grid \<and> x < length (grid ! y) then grid ! y ! x else 0)
      in arc_color color_id)"

definition draw_grid :: "grid \<Rightarrow> int \<Rightarrow> int \<Rightarrow> int \<Rightarrow> int \<Rightarrow> draw_op list" where
  "draw_grid grid x_offset y_offset cell_size grid_padding =
     (case grid of
        [] \<Rightarrow> []
      | row0 # _ \<Rightarrow>
          (let height = length grid;
               width = length row0
           in concat (map (\<lambda>y. map (\<lambda>x.
                (let color = cell_color grid y x;
                     cell_x = x_offset + int x * (cell_size + grid_padding);
                     cell_y = y_offset + int y * (cell_size + grid_padding)
                 in Rectangle cell_x cell_y (cell_x + cell_size - 1) (cell_y + cell_size - 1)
                      color (100, 100, 100)))
                [0..<width]) [0..<height])))"

definition draw_blank_grid :: "nat \<Rightarrow> nat \<Rightarrow> int \<Rightarrow> int \<Rightarrow> int \<Rightarrow> int \<Rightarrow> draw_op list" where
  "draw_blank_grid width height x_offset y_offset cell_size grid_padding =
     concat (map (\<lambda>y. map (\<lambda>x.
       (let cell_x = x_offset + int x * (cell_size + grid_padding);
            cell_y = y_offset + int y * (cell_size + grid_padding)
        in Rectangle cell_x cell_y (cell_x + cell_size - 1) (cell_y + cell_size - 1)
             (255, 255, 255) (200, 200, 200)))
       [0..<width]) [0..<height])"

definition get_grid_size :: "grid \<Rightarrow> nat \<times> nat" where
  "get_grid_size grid =
     (case grid of [] \<Rightarrow> (0, 0) | row0 # _ \<Rightarrow> (length row0, length grid))"

subsection \<open>Layout of the training examples\<close>

record train_info =
  info_index :: nat
  info_input :: grid
  info_output :: grid
  info_input_size :: "nat \<times> nat"
  info_output_size :: "nat \<times> nat"
  info_height :: int

text \<open>
  The first loop of \<open>create_puzzle_image\<close> and of \<open>create_examples_image\<close> (the two are
  the same text): it runs over \<open>enumerate(train)\<close> and carries \<open>examples_width\<close>,
  \<open>examples_height\<close> and \<open>train_info\<close>.
\<close>

fun process_train ::
  "(nat \<times> pair) list \<Rightarrow> int \<times> int \<times> train_info list \<Rightarrow> int \<times> int \<times> train_info list" where
  "process_train [] acc = acc"
| "process_train ((i, example) # rest) (examples_width, examples_height, infos) =
     (let input_grid = dict_get (pair_input example);
          output_grid = dict_get (pair_output example);
          (input_w, input_h) = get_grid_size input_grid;
          (output_w, output_h) = get_grid_size output_grid;
          grid_width = int input_w * (CELL_SIZE + GRID_PADDING) + GRID_SPACING
                       + int output_w * (CELL_SIZE + GRID_PADDING);
          grid_height = int (max input_h output_h) * (CELL_SIZE + GRID_PADDING)
      in process_train rest
           (max examples_width grid_width,
            examples_height + (grid_height + LABEL_HEIGHT * 2 + GRID_SPACING),
            infos @ [\<lparr>info_index = i, info_input = input_grid, info_output = output_grid,
                      info_input_size = (input_w, input_h),
                      info_output_size = (output_w, output_h),
                      info_height = grid_height\<rparr>]))"

text \<open>Decimal digits of a number, for the label \<open>f"Example {index + 1}"\<close>.\<close>

fun str_nat :: "nat \<Rightarrow> string" where
  "str_nat n =
     (if n < 10 then [''0123456789'' ! n]
      else str_nat (n div 10) @ [''0123456789'' ! (n mod 10)])"

declare str_nat.simps [simp del]

text \<open>
  The body of the drawing loop over \<open>train_info\<close>, for one example with the cursor at
  \<open>y_pos\<close>: its draw calls and the \<open>output_y\<close> its output grid is drawn at.
\<close>

definition draw_example :: "int \<Rightarrow> train_info \<Rightarrow> draw_op list \<times> int" where
  "draw_example y_pos0 info =
     (let label = ''Example '' @ str_nat (info_index info + 1);
          op_label = Text MARGIN y_pos0 label (0, 0, 0);
          y_pos = y_pos0 + LABEL_HEIGHT;
          (input_w, input_h) = info_input_size info;
          (output_w, output_h) = info_output_size info;
          input_x = MARGIN;
          input_y = y_pos + LABEL_HEIGHT;
          op_input = Text input_x y_pos ''Input'' (0, 0, 0);
          ops_input = draw_grid (info_input info) input_x input_y CELL_SIZE GRID_PADDING;
          output_x = input_x + int input_w * (CELL_SIZE + GRID_PADDING) + GRID_SPACING;
          output_y = y_pos + LABEL_HEIGHT;
          op_output = Text output_x y_pos ''Output'' (0, 0, 0);
          ops_output = draw_grid (info_output info) output_x output_y CELL_SIZE GRID_PADDING
      in ([op_label, op_input] @ ops_input @ [op_output] @ ops_output, output_y))"

text \<open>
  The drawing loop of \<open>create_puzzle_image\<close>: it carries the cursor \<open>y_pos\<close> and
  \<open>example2_output_y\<close> (\<open>None\<close> until the example with index 1 is drawn) and returns the
  draw calls with the final value of \<open>example2_output_y\<close>.
\<close>

fun draw_examples :: "int \<Rightarrow> int option \<Rightarrow> train_info list \<Rightarrow> draw_op list \<times> int option" where
  "draw_examples y_pos example2_output_y [] = ([], example2_output_y)"
| "draw_examples y_pos example2_output_y (info # infos) =
     (let (ops_here, output_y) = draw_example y_pos info;
          example2_output_y' = (if info_index info = 1 then Some output_y else example2_output_y);
          y_pos' = y_pos + LABEL_HEIGHT + (LABEL_HEIGHT + info_height info + GRID_SPACING);
          (ops_rest, r) = draw_examples y_pos' example2_output_y' infos
      in (ops_here @ ops_rest, r))"

subsection \<open>The test pair in the puzzle image\<close>

record test_info =
  ti_input :: grid
  ti_output :: grid
  ti_input_size :: "nat \<times> nat"
  ti_output_size :: "nat \<times> nat"
  ti_input_height :: int
  ti_output_height :: int

text \<open>
  Lines 129 to 150: \<open>test_info\<close> and \<open>test_width\<close> from the first test pair, when there
  is one. The blank output takes the size of the real output when that is a non-empty
  list (\<open>if test_output:\<close>) and the size of the input otherwise.
\<close>

definition process_test :: "pair list \<Rightarrow> test_info option \<times> int" where
  "process_test tst =
     (case tst of
        [] \<Rightarrow> (None, 0)
      | t0 # _ \<Rightarrow>
          (let test_input = dict_get (pair_input t0);
               test_output = dict_get (pair_output t0);
               (test_w, test_h) = get_grid_size test_input;
               (output_w, output_h) =
                  (if test_output \<noteq> [] then get_grid_size test_output else (test_w, test_h));
               test_width = int (max test_w output_w) * (CELL_SIZE + GRID_PADDING)
           in (Some \<lparr>ti_input = test_input, ti_output = test_output,
                      ti_input_size = (test_w, test_h),
                      ti_output_size = (output_w, output_h),
                      ti_input_height = int test_h * (CELL_SIZE + GRID_PADDING),
                      ti_output_height = int output_h * (CELL_SIZE + GRID_PADDING)\<rparr>,
               test_width)))"

text \<open>
  Lines 212 to 245: the right column, drawn at \<open>test_x\<close>, given \<open>example2_output_y\<close> from
  the drawing loop. The result is the draw calls together with \<open>test_output_y\<close>.
\<close>

definition draw_test_column :: "test_info \<Rightarrow> int \<Rightarrow> int option \<Rightarrow> draw_op list \<times> int" where
  "draw_test_column ti test_x example2_output_y =
     (let test_y0 = MARGIN;
          op_test = Text test_x test_y0 ''Test'' (0, 0, 0);
          test_y1 = test_y0 + LABEL_HEIGHT;
          op_input = Text test_x test_y1 ''Input'' (0, 0, 0);
          test_y2 = test_y1 + LABEL_HEIGHT;
          ops_input = draw_grid (ti_input ti) test_x test_y2 CELL_SIZE GRID_PADDING;
          (output_w, output_h) = ti_output_size ti;
          (op_output, test_output_y) =
             (case example2_output_y of
                Some e2 \<Rightarrow>
                  (let test_output_y = e2;
                       output_label_y = test_output_y - LABEL_HEIGHT
                   in (Text test_x output_label_y ''Output'' (0, 0, 0), test_output_y))
              | None \<Rightarrow>
                  (let test_y3 = test_y2 + (ti_input_height ti + GRID_SPACING);
                       op = Text test_x test_y3 ''Output'' (0, 0, 0);
                       test_y4 = test_y3 + LABEL_HEIGHT
                   in (op, test_y4)))
      in ([op_test, op_input] @ ops_input @ [op_output]
            @ draw_blank_grid output_w output_h test_x test_output_y CELL_SIZE GRID_PADDING,
          test_output_y))"

subsection \<open>The four compositions\<close>

definition create_puzzle_image :: "document \<Rightarrow> exn + image" where
  "create_puzzle_image data =
     (let trn = dict_get (train data);
          tst = dict_get (test data)
      in if trn = [] \<and> tst = [] then Inl (ValueError ''No train or test data found'')
         else
           (let (examples_width, examples_height, infos) =
                   process_train (enumerate 0 trn) (0, 0, []);
                (test_info, test_width) = process_test tst;
                left_column_width = examples_width + 2 * MARGIN;
                right_column_width = (if test_info \<noteq> None then test_width + 2 * MARGIN else 0);
                column_spacing = GRID_SPACING * 2;
                width = left_column_width + column_spacing + right_column_width;
                test_column_height =
                  (case test_info of
                     None \<Rightarrow> 0
                   | Some ti \<Rightarrow>
                       LABEL_HEIGHT + LABEL_HEIGHT + ti_input_height ti + GRID_SPACING
                       + LABEL_HEIGHT + ti_output_height ti);
                height = max examples_height test_column_height + MARGIN;
                (ops_left, example2_output_y) = draw_examples MARGIN None infos;
                ops_right =
                  (case test_info of
                     None \<Rightarrow> []
                   | Some ti \<Rightarrow>
                       (let test_x = left_column_width + column_spacing + MARGIN
                        in fst (draw_test_column ti test_x example2_output_y)))
            in Inr \<lparr>img_width = width, img_height = height, background = (255, 255, 255),
                     ops = ops_left @ ops_right\<rparr>))"

definition create_examples_image :: "document \<Rightarrow> exn + image" where
  "create_examples_image data =
     (let trn = dict_get (train data)
      in if trn = [] then Inl (ValueError ''No train data found'')
         else
           (let (examples_width, examples_height, infos) =
                   process_train (enumerate 0 trn) (0, 0, []);
                width = examples_width + 2 * MARGIN;
                height = examples_height + MARGIN;
                (ops_left, example2_output_y) = draw_examples MARGIN None infos
            in Inr \<lparr>img_width = width, img_height = height, background = (255, 255, 255),
                     ops = ops_left\<rparr>))"

definition create_test_image :: "document \<Rightarrow> exn + image" where
  "create_test_image data =
     (let tst = dict_get (test data)
      in case tst of
           [] \<Rightarrow> Inl (ValueError ''No test data found'')
         | t0 # _ \<Rightarrow>
             (let test_input = dict_get (pair_input t0);
                  test_output = dict_get (pair_output t0)
              in if test_input = [] then Inl (ValueError ''No test input found'')
                 else
                   (let (input_w, input_h) = get_grid_size test_input;
                        (output_w, output_h) =
                           (if test_output \<noteq> [] then get_grid_size test_output
                            else (input_w, input_h));
                        grid_width = int (max input_w output_w) * (CELL_SIZE + GRID_PADDING);
                        input_height = int input_h * (CELL_SIZE + GRID_PADDING);
                        output_height = int output_h * (CELL_SIZE + GRID_PADDING);
                        width = grid_width + 2 * MARGIN;
                        height = LABEL_HEIGHT + LABEL_HEIGHT + input_height + GRID_SPACING
                                 + LABEL_HEIGHT + output_height + MARGIN;
                        test_x = MARGIN;
                        test_y0 = MARGIN;
                        op_test = Text test_x test_y0 ''Test'' (0, 0, 0);
                        test_y1 = test_y0 + LABEL_HEIGHT;
                        op_input = Text test_x test_y1 ''Input'' (0, 0, 0);
                        test_y2 = test_y1 + LABEL_HEIGHT;
                        ops_input = draw_grid test_input test_x test_y2 CELL_SIZE GRID_PADDING;
                        test_y3 = test_y2 + (input_height + GRID_SPACING);
                        op_output = Text test_x test_y3 ''Output'' (0, 0, 0);
                        test_y4 = test_y3 + LABEL_HEIGHT;
                        ops_blank =
                          draw_blank_grid output_w output_h test_x test_y4 CELL_SIZE GRID_PADDING
                    in Inr \<lparr>img_width = width, img_height = height,
                             background = (255, 255, 255),
                             ops = [op_test, op_input] @ ops_input @ [op_output] @ ops_blank\<rparr>)))"

definition create_answer_image :: "document \<Rightarrow> exn + image" where
  "create_answer_image data =
     (let tst = dict_get (test data)
      in case tst of
           [] \<Rightarrow> Inl (ValueError ''No test data found'')
         | t0 # _ \<Rightarrow>
             (let test_output = dict_get (pair_output t0)
              in if test_output = [] \<or> length test_output = 0
                 then Inl (ValueError ''No test output found'')
                 else
                   (let (output_w, output_h) = get_grid_size test_output;
                        width = int output_w * (CELL_SIZE + GRID_PADDING) + 2 * MARGIN;
                        height = int output_h * (CELL_SIZE + GRID_PADDING) + LABEL_HEIGHT
                                 + 2 * MARGIN;
                        op_label = Text MARGIN MARGIN ''Test Output'' (0, 0, 0);
                        output_x = MARGIN;
                        output_y = MARGIN + LABEL_HEIGHT
                    in Inr \<lparr>img_width = width, img_height = height,
                             background = (255, 255, 255),
                             ops = op_label
                                   # draw_grid test_output output_x output_y CELL_SIZE GRID_PADDING\<rparr>)))"

subsection \<open>The command-line driver\<close>

text \<open>
  \<open>main\<close> from the point where the document has been parsed. What it does to the outside
  is kept in a record: the lines printed to the two streams, the files written, and (as
  a ghost field) the compositions whose \<open>try\<close> block was entered, in order. Writing a
  file is the library's \<open>img.save(path)\<close>, a parameter that either succeeds or raises.
  The result pairs the process's exit status (\<open>sys.exit(1)\<close> gives 1, falling off the end
  of \<open>main\<close> gives 0) with that record.
\<close>

record proc =
  stdout :: "string list"
  stderr :: "string list"
  files :: "(string \<times> image) list"
  attempted :: "string list"

definition exn_str :: "exn \<Rightarrow> string" where
  "exn_str e = (case e of ValueError m \<Rightarrow> m | OtherException m \<Rightarrow> m)"

text \<open>
  The body of one \<open>try\<close> block: build the image, save it under
  \<open>output_dir / f"{base_name}-{kind}.png"\<close> and print \<open>Created\<close>; an exception of either
  step leaves the block.
\<close>

definition try_create ::
  "(string \<Rightarrow> image \<Rightarrow> exn option) \<Rightarrow> string \<Rightarrow> string \<Rightarrow> string \<Rightarrow> exn + image \<Rightarrow> proc
   \<Rightarrow> exn + proc" where
  "try_create save output_dir base_name kind created p =
     (case created of
        Inl e \<Rightarrow> Inl e
      | Inr img \<Rightarrow>
          (let path = output_dir @ ''/'' @ base_name @ ''-'' @ kind @ ''.png''
           in case save path img of
                Some e \<Rightarrow> Inl e
              | None \<Rightarrow>
                  Inr (p\<lparr>files := files p @ [(path, img)],
                         stdout := stdout p @ [''Created: '' @ path]\<rparr>)))"

definition enter :: "string \<Rightarrow> proc \<Rightarrow> proc" where
  "enter kind p = p\<lparr>attempted := attempted p @ [kind]\<rparr>"

definition eprint :: "string \<Rightarrow> proc \<Rightarrow> proc" where
  "eprint line p = p\<lparr>stderr := stderr p @ [line]\<rparr>"

definition main ::
  "document \<Rightarrow> string \<Rightarrow> string \<Rightarrow> (string \<Rightarrow> image \<Rightarrow> exn option) \<Rightarrow> int \<times> proc" where
  "main data output_dir base_name save =
     (let p0 = enter ''puzzle'' \<lparr>stdout = [], stderr = [], files = [], attempted = []\<rparr>
      in case try_create save output_dir base_name ''puzzle'' (create_puzzle_image data) p0 of
           Inl e \<Rightarrow> (1, eprint (''Error creating puzzle image: '' @ exn_str e) p0)
         | Inr p1 \<Rightarrow>
      (let p1 = enter ''examples'' p1
       in case try_create save output_dir base_name ''examples'' (create_examples_image data) p1 of
            Inl e \<Rightarrow> (1, eprint (''Error creating examples image: '' @ exn_str e) p1)
          | Inr p2 \<Rightarrow>
      (let p2 = enter ''test'' p2;
           p3 = (case try_create save output_dir base_name ''test'' (create_test_image data) p2 of
                   Inl (ValueError m) \<Rightarrow>
                     eprint (''Warning: '' @ m @ ''. Skipping test image.'') p2
                 | Inl (OtherException m) \<Rightarrow>
                     eprint (''Error creating test image: '' @ m) p2
                 | Inr p \<Rightarrow> p);
           p3 = enter ''answer'' p3
       in case try_create save output_dir base_name ''answer'' (create_answer_image data) p3 of
            Inl (ValueError m) \<Rightarrow>
              (0, eprint (''Warning: '' @ m @ ''. Skipping answer image.'') p3)
          | Inl (OtherException m) \<Rightarrow>
              (1, eprint (''Error creating answer image: '' @ m) p3)
          | Inr p4 \<Rightarrow> (0, p4))))"

subsection \<open>Names for the intermediate values of the layout\<close>

text \<open>
  The loop over the training pairs computes, for each pair, \<open>grid_width\<close>, \<open>grid_height\<close>
  and the dictionary appended to \<open>train_info\<close>. The three functions below are those
  expressions on their own, and \<open>examples_width\<close>, \<open>examples_height\<close> and \<open>train_infos\<close>
  are the loop's three results, so that statements about a composition can name them.
\<close>

definition pair_width :: "pair \<Rightarrow> int" where
  "pair_width example =
     int (fst (get_grid_size (dict_get (pair_input example)))) * (CELL_SIZE + GRID_PADDING)
     + GRID_SPACING
     + int (fst (get_grid_size (dict_get (pair_output example)))) * (CELL_SIZE + GRID_PADDING)"

definition pair_height :: "pair \<Rightarrow> int" where
  "pair_height example =
     int (max (snd (get_grid_size (dict_get (pair_input example))))
              (snd (get_grid_size (dict_get (pair_output example)))))
     * (CELL_SIZE + GRID_PADDING)"

definition mk_info :: "nat \<Rightarrow> pair \<Rightarrow> train_info" where
  "mk_info i example =
     \<lparr>info_index = i,
      info_input = dict_get (pair_input example),
      info_output = dict_get (pair_output example),
      info_input_size = get_grid_size (dict_get (pair_input example)),
      info_output_size = get_grid_size (dict_get (pair_output example)),
      info_height = pair_height example\<rparr>"

definition examples_width :: "pair list \<Rightarrow> int" where
  "examples_width trn = fst (process_train (enumerate 0 trn) (0, 0, []))"

definition examples_height :: "pair list \<Rightarrow> int" where
  "examples_height trn = fst (snd (process_train (enumerate 0 trn) (0, 0, [])))"

definition train_infos :: "pair list \<Rightarrow> train_info list" where
  "train_infos trn = snd (snd (process_train (enumerate 0 trn) (0, 0, [])))"

subsection \<open>Concrete documents\<close>

text \<open>
  The document of the specification's round-trip scenario:
  \<^verbatim>\<open>{"train":[{"input":[[1]],"output":[[2]]}],"test":[{"input":[[3]]}]}\<close>.
\<close>

definition doc_roundtrip :: document where
  "doc_roundtrip =
     \<lparr>train = Some [\<lparr>pair_input = Some [[1]], pair_output = Some [[2]]\<rparr>],
      test = Some [\<lparr>pair_input = Some [[3]], pair_output = None\<rparr>]\<rparr>"

text \<open>\<^verbatim>\<open>{"train":[{"input":[[1]],"output":[[2]]}],"test":[{"input":[]}]}\<close>\<close>

definition doc_empty_test_input :: document where
  "doc_empty_test_input =
     \<lparr>train = Some [\<lparr>pair_input = Some [[1]], pair_output = Some [[2]]\<rparr>],
      test = Some [\<lparr>pair_input = Some [], pair_output = None\<rparr>]\<rparr>"

text \<open>\<^verbatim>\<open>{"train":[{"input":[[1]],"output":[[2]]}],"test":[{"input":[[3]],"output":[]}]}\<close>\<close>

definition doc_empty_test_output :: document where
  "doc_empty_test_output =
     \<lparr>train = Some [\<lparr>pair_input = Some [[1]], pair_output = Some [[2]]\<rparr>],
      test = Some [\<lparr>pair_input = Some [[3]], pair_output = Some []\<rparr>]\<rparr>"

text \<open>
  Two training pairs of one cell each, and a test pair whose output is three rows high:
  \<^verbatim>\<open>{"train":[{"input":[[1]],"output":[[2]]},{"input":[[1]],"output":[[2]]}],
   "test":[{"input":[[3]],"output":[[4],[4],[4]]}]}\<close>.
\<close>

definition doc_two_examples :: document where
  "doc_two_examples =
     \<lparr>train = Some [\<lparr>pair_input = Some [[1]], pair_output = Some [[2]]\<rparr>,
                   \<lparr>pair_input = Some [[1]], pair_output = Some [[2]]\<rparr>],
      test = Some [\<lparr>pair_input = Some [[3]], pair_output = Some [[4], [4], [4]]\<rparr>]\<rparr>"

text \<open>The same test pair with five cells in its output, for comparison.\<close>

definition doc_two_examples_other :: document where
  "doc_two_examples_other =
     \<lparr>train = Some [\<lparr>pair_input = Some [[1]], pair_output = Some [[2]]\<rparr>,
                   \<lparr>pair_input = Some [[1]], pair_output = Some [[2]]\<rparr>],
      test = Some [\<lparr>pair_input = Some [[3]], pair_output = Some [[7], [8, 9], [1]]\<rparr>]\<rparr>"

text \<open>No \<open>train\<close> key at all: \<^verbatim>\<open>{"test":[{"input":[[3]],"output":[[4]]}]}\<close>.\<close>

definition doc_no_train :: document where
  "doc_no_train =
     \<lparr>train = None,
      test = Some [\<lparr>pair_input = Some [[3]], pair_output = Some [[4]]\<rparr>]\<rparr>"

subsection \<open>Further names used in the statements\<close>

text \<open>
  \<open>test_column_height\<close> as \<open>create_puzzle_image\<close> computes it (0 without a test pair), and
  the horizontal position of a draw call: the left edge of a rectangle, the anchor of a
  text.
\<close>

definition test_column_height :: "pair list \<Rightarrow> int" where
  "test_column_height tst =
     (case fst (process_test tst) of
        None \<Rightarrow> 0
      | Some ti \<Rightarrow>
          LABEL_HEIGHT + LABEL_HEIGHT + ti_input_height ti + GRID_SPACING
          + LABEL_HEIGHT + ti_output_height ti)"

fun op_x :: "draw_op \<Rightarrow> int" where
  "op_x (Rectangle x0 y0 x1 y1 fill outline) = x0"
| "op_x (Text x y s fill) = x"

text \<open>
  What goes wrong, if anything, in the \<open>try\<close> block of one composition of \<open>main\<close>: the
  exception of the composition, or else that of saving its image.
\<close>

definition step_failure ::
  "(string \<Rightarrow> image \<Rightarrow> exn option) \<Rightarrow> string \<Rightarrow> string \<Rightarrow> string \<Rightarrow> exn + image \<Rightarrow> exn option" where
  "step_failure save output_dir base_name kind created =
     (case created of
        Inl e \<Rightarrow> Some e
      | Inr img \<Rightarrow> save (output_dir @ ''/'' @ base_name @ ''-'' @ kind @ ''.png'') img)"

text \<open>A file system on which only writing the answer image fails.\<close>

definition save_answer_fails :: "string \<Rightarrow> image \<Rightarrow> exn option" where
  "save_answer_fails path img =
     (if path = ''out/x-answer.png'' then Some (OtherException ''disk full'') else None)"

section \<open>Properties\<close>

subsection \<open>Auxiliary facts about the cell loops\<close>

lemma length_concat_map_upt:
  "length (concat (map (\<lambda>y. map (f y) [0..<w]) [0..<h])) = h * w"
  by (induction h) simp_all

lemma nth_concat_map_upt:
  assumes "y < h" "x < w"
  shows "concat (map (\<lambda>y. map (f y) [0..<w]) [0..<h]) ! (y * w + x) = f y x"
  using assms
proof (induction h)
  case 0
  then show ?case by simp
next
  case (Suc h)
  let ?pre = "concat (map (\<lambda>y. map (f y) [0..<w]) [0..<h])"
  have len: "length ?pre = h * w" by (rule length_concat_map_upt)
  show ?case
  proof (cases "y < h")
    case True
    then have "Suc y \<le> h" by simp
    then have "Suc y * w \<le> h * w" by (rule mult_le_mono1)
    with \<open>x < w\<close> have "y * w + x < h * w" by simp
    with Suc.IH [OF True \<open>x < w\<close>] len show ?thesis by (simp add: nth_append)
  next
    case False
    with Suc.prems have "y = h" by simp
    with \<open>x < w\<close> len show ?thesis by (simp add: nth_append)
  qed
qed

lemma arc_color_zero: "arc_color 0 = (0, 0, 0)"
  by (simp add: arc_color_def ARC_COLORS_def)

lemma arc_color_outside: "c < 0 \<or> 9 < c \<Longrightarrow> arc_color c = (0, 0, 0)"
  by (auto simp add: arc_color_def ARC_COLORS_def)

subsection \<open>Grid geometry\<close>

text \<open>
  Claim C2. \<open>get_grid_size\<close> returns \<open>(0, 0)\<close> for a grid with no rows, which is also what
  an absent grid is read as, and otherwise the length of the first row paired with the
  number of rows. The other rows are never inspected, so rows of unequal length are
  accepted; the function has no failing branch.
\<close>

theorem get_grid_size_spec:
  "get_grid_size (dict_get None) = (0, 0) \<and> get_grid_size [] = (0, 0)
   \<and> get_grid_size (row0 # rows) = (length row0, Suc (length rows))"
  by (simp add: get_grid_size_def dict_get_def)

theorem get_grid_size_spec_witness:
  "get_grid_size (dict_get None) = (0, 0) \<and> get_grid_size [] = (0, 0)
   \<and> get_grid_size ([1, 2, 3] # [[4], [], [5, 6, 7, 8]]) = (3, 4)"
  using get_grid_size_spec [of "[1, 2, 3]" "[[4], [], [5, 6, 7, 8]]"] by simp

subsection \<open>Colours of a filled grid\<close>

text \<open>
  Claim C7. \<open>draw_grid\<close> issues one rectangle for each position \<open>(y, x)\<close> below the number
  of rows and the first row's length, in row-major order, and never fails. The fill of
  that rectangle is the table's colour when row \<open>y\<close> reaches \<open>x\<close> and holds an index
  from 0 to 9 there; in every other case (an index outside 0 to 9, or a row shorter than
  the first row) it is the colour of index 0, which is black.
\<close>

theorem draw_grid_cell:
  assumes "y < length grid" and "x < length (hd grid)"
  shows "length (draw_grid grid x_offset y_offset cell_size grid_padding)
           = length grid * length (hd grid)
     \<and> draw_grid grid x_offset y_offset cell_size grid_padding ! (y * length (hd grid) + x)
         = Rectangle (x_offset + int x * (cell_size + grid_padding))
                     (y_offset + int y * (cell_size + grid_padding))
                     (x_offset + int x * (cell_size + grid_padding) + cell_size - 1)
                     (y_offset + int y * (cell_size + grid_padding) + cell_size - 1)
                     (cell_color grid y x) (100, 100, 100)
     \<and> cell_color grid y x
         = (if x < length (grid ! y) \<and> 0 \<le> grid ! y ! x \<and> grid ! y ! x \<le> 9
            then the (ARC_COLORS (grid ! y ! x)) else arc_color 0)
     \<and> arc_color 0 = (0, 0, 0)"
proof -
  from assms obtain row0 rows where g: "grid = row0 # rows" by (cases grid) auto
  have 1: "length (draw_grid grid x_offset y_offset cell_size grid_padding)
           = length grid * length (hd grid)"
    by (simp add: g draw_grid_def length_concat_map_upt del: upt_Suc)
  have 2: "draw_grid grid x_offset y_offset cell_size grid_padding ! (y * length (hd grid) + x)
         = Rectangle (x_offset + int x * (cell_size + grid_padding))
                     (y_offset + int y * (cell_size + grid_padding))
                     (x_offset + int x * (cell_size + grid_padding) + cell_size - 1)
                     (y_offset + int y * (cell_size + grid_padding) + cell_size - 1)
                     (cell_color grid y x) (100, 100, 100)"
    using assms nth_concat_map_upt [of y "length grid" x "length (hd grid)"]
    by (simp add: g draw_grid_def Let_def del: upt_Suc)
  have 3: "cell_color grid y x
         = (if x < length (grid ! y) \<and> 0 \<le> grid ! y ! x \<and> grid ! y ! x \<le> 9
            then the (ARC_COLORS (grid ! y ! x)) else arc_color 0)"
  proof (cases "x < length (grid ! y)")
    case False
    then show ?thesis by (simp add: cell_color_def)
  next
    case True
    show ?thesis
    proof (cases "0 \<le> grid ! y ! x \<and> grid ! y ! x \<le> 9")
      case False
      then have "arc_color (grid ! y ! x) = (0, 0, 0)" by (intro arc_color_outside) auto
      with True False assms show ?thesis by (auto simp add: cell_color_def arc_color_zero)
    next
      case t: True
      then have "grid ! y ! x \<in> {0,1,2,3,4,5,6,7,8,9}" by simp arith
      then have "ARC_COLORS (grid ! y ! x) \<noteq> None" by (auto simp add: ARC_COLORS_def)
      with True t assms show ?thesis by (auto simp add: cell_color_def arc_color_def)
    qed
  qed
  from 1 2 3 arc_color_zero show ?thesis by blast
qed

theorem draw_grid_cell_witness:
  "(1::nat) < length [[1, 12, - 3], [5::int]] \<and> (2::nat) < length (hd [[1, 12, - 3], [5::int]])
   \<and> length (draw_grid [[1, 12, - 3], [5]] 0 0 20 0) = 6
   \<and> draw_grid [[1, 12, - 3], [5]] 0 0 20 0 ! 5 = Rectangle 40 20 59 39 (0, 0, 0) (100, 100, 100)
   \<and> draw_grid [[1, 12, - 3], [5]] 0 0 20 0 ! 1 = Rectangle 20 0 39 19 (0, 0, 0) (100, 100, 100)
   \<and> draw_grid [[1, 12, - 3], [5]] 0 0 20 0 ! 3 = Rectangle 0 20 19 39 (170, 170, 170) (100, 100, 100)"
  using draw_grid_cell [of 1 "[[1, 12, - 3], [5]]" 2 0 0 20 0]
    draw_grid_cell [of 0 "[[1, 12, - 3], [5]]" 1 0 0 20 0]
    draw_grid_cell [of 1 "[[1, 12, - 3], [5]]" 0 0 0 20 0]
  by (simp add: ARC_COLORS_def eval_nat_numeral)

subsection \<open>Auxiliary facts about the layout\<close>

lemma dict_get_empty_iff: "dict_get v = [] \<longleftrightarrow> v = None \<or> v = Some []"
  by (cases v) (simp_all add: dict_get_def)

lemma draw_blank_grid_white:
  "op \<in> set (draw_blank_grid w h x_offset y_offset cell_size grid_padding)
   \<Longrightarrow> \<exists>x0 y0 x1 y1. op = Rectangle x0 y0 x1 y1 (255, 255, 255) (200, 200, 200)"
  by (auto simp add: draw_blank_grid_def Let_def simp del: upt_Suc)

lemma create_answer_image_cases:
  "create_answer_image data =
     (case dict_get (test data) of
        [] \<Rightarrow> Inl (ValueError ''No test data found'')
      | t0 # _ \<Rightarrow>
          (case dict_get (pair_output t0) of
             [] \<Rightarrow> Inl (ValueError ''No test output found'')
           | row0 # rows \<Rightarrow>
               Inr \<lparr>img_width = int (length row0) * (CELL_SIZE + GRID_PADDING) + 2 * MARGIN,
                    img_height = int (Suc (length rows)) * (CELL_SIZE + GRID_PADDING)
                                 + LABEL_HEIGHT + 2 * MARGIN,
                    background = (255, 255, 255),
                    ops = Text MARGIN MARGIN ''Test Output'' (0, 0, 0)
                          # draw_grid (row0 # rows) MARGIN (MARGIN + LABEL_HEIGHT)
                              CELL_SIZE GRID_PADDING\<rparr>))"
  by (simp add: create_answer_image_def Let_def get_grid_size_def split: list.splits)

lemma create_test_image_cases:
  "create_test_image data =
     (case dict_get (test data) of
        [] \<Rightarrow> Inl (ValueError ''No test data found'')
      | t0 # _ \<Rightarrow>
          (if dict_get (pair_input t0) = [] then Inl (ValueError ''No test input found'')
           else
             (let inp = dict_get (pair_input t0);
                  out = dict_get (pair_output t0);
                  iw = fst (get_grid_size inp);
                  ih = snd (get_grid_size inp);
                  ow = (if out \<noteq> [] then fst (get_grid_size out) else iw);
                  oh = (if out \<noteq> [] then snd (get_grid_size out) else ih);
                  grid_y = MARGIN + LABEL_HEIGHT + LABEL_HEIGHT;
                  label_y = grid_y + (int ih * (CELL_SIZE + GRID_PADDING) + GRID_SPACING)
              in Inr \<lparr>img_width = int (max iw ow) * (CELL_SIZE + GRID_PADDING) + 2 * MARGIN,
                      img_height = LABEL_HEIGHT + LABEL_HEIGHT
                                   + int ih * (CELL_SIZE + GRID_PADDING) + GRID_SPACING
                                   + LABEL_HEIGHT + int oh * (CELL_SIZE + GRID_PADDING) + MARGIN,
                      background = (255, 255, 255),
                      ops = [Text MARGIN MARGIN ''Test'' (0, 0, 0),
                             Text MARGIN (MARGIN + LABEL_HEIGHT) ''Input'' (0, 0, 0)]
                            @ draw_grid inp MARGIN grid_y CELL_SIZE GRID_PADDING
                            @ [Text MARGIN label_y ''Output'' (0, 0, 0)]
                            @ draw_blank_grid ow oh MARGIN (label_y + LABEL_HEIGHT)
                                CELL_SIZE GRID_PADDING\<rparr>)))"
  by (simp add: create_test_image_def Let_def split: list.splits prod.splits)

lemma process_train_fold:
  "process_train (enumerate n trn) (w, h, acc) =
     (fold (\<lambda>e w. max w (pair_width e)) trn w,
      h + (\<Sum>e\<leftarrow>trn. pair_height e + LABEL_HEIGHT * 2 + GRID_SPACING),
      acc @ map (\<lambda>(i, e). mk_info i e) (enumerate n trn))"
proof (induction trn arbitrary: n w h acc)
  case Nil
  show ?case by simp
next
  case (Cons e trn)
  show ?case
    by (simp add: Cons.IH Let_def pair_width_def pair_height_def mk_info_def
        split: prod.splits)
qed

lemma examples_height_sum:
  "examples_height trn = (\<Sum>e\<leftarrow>trn. pair_height e + LABEL_HEIGHT * 2 + GRID_SPACING)"
  by (simp add: examples_height_def process_train_fold)

lemma examples_width_fold:
  "examples_width trn = fold (\<lambda>e w. max w (pair_width e)) trn 0"
  by (simp add: examples_width_def process_train_fold)

lemma train_infos_map:
  "train_infos trn = map (\<lambda>(i, e). mk_info i e) (enumerate 0 trn)"
  by (simp add: train_infos_def process_train_fold)

lemma process_train_views:
  "process_train (enumerate 0 trn) (0, 0, []) = (examples_width trn, examples_height trn, train_infos trn)"
  by (simp add: examples_width_def examples_height_def train_infos_def)

lemma process_test_Cons:
  "process_test (t0 # ts) =
     (let inp = dict_get (pair_input t0);
          out = dict_get (pair_output t0);
          iw = fst (get_grid_size inp);
          ih = snd (get_grid_size inp);
          ow = (if out \<noteq> [] then fst (get_grid_size out) else iw);
          oh = (if out \<noteq> [] then snd (get_grid_size out) else ih)
      in (Some \<lparr>ti_input = inp, ti_output = out, ti_input_size = (iw, ih),
                 ti_output_size = (ow, oh),
                 ti_input_height = int ih * (CELL_SIZE + GRID_PADDING),
                 ti_output_height = int oh * (CELL_SIZE + GRID_PADDING)\<rparr>,
          int (max iw ow) * (CELL_SIZE + GRID_PADDING)))"
  by (simp add: process_test_def Let_def split: prod.splits)

lemma draw_test_column_ops:
  "draw_test_column ti test_x e2 =
     (let test_output_y =
            (case e2 of
               Some y \<Rightarrow> y
             | None \<Rightarrow> MARGIN + LABEL_HEIGHT + LABEL_HEIGHT + (ti_input_height ti + GRID_SPACING)
                         + LABEL_HEIGHT)
      in ([Text test_x MARGIN ''Test'' (0, 0, 0),
           Text test_x (MARGIN + LABEL_HEIGHT) ''Input'' (0, 0, 0)]
          @ draw_grid (ti_input ti) test_x (MARGIN + LABEL_HEIGHT + LABEL_HEIGHT)
              CELL_SIZE GRID_PADDING
          @ [Text test_x (test_output_y - LABEL_HEIGHT) ''Output'' (0, 0, 0)]
          @ draw_blank_grid (fst (ti_output_size ti)) (snd (ti_output_size ti)) test_x
              test_output_y CELL_SIZE GRID_PADDING,
          test_output_y))"
  by (simp add: draw_test_column_def Let_def split: prod.splits option.splits)

lemma draw_examples_Cons:
  "draw_examples y e2 (info # infos) =
     (fst (draw_example y info)
      @ fst (draw_examples (y + LABEL_HEIGHT + (LABEL_HEIGHT + info_height info + GRID_SPACING))
               (if info_index info = 1 then Some (snd (draw_example y info)) else e2) infos),
      snd (draw_examples (y + LABEL_HEIGHT + (LABEL_HEIGHT + info_height info + GRID_SPACING))
               (if info_index info = 1 then Some (snd (draw_example y info)) else e2) infos))"
  by (simp add: Let_def split: prod.splits)

lemma draw_examples_keeps:
  "\<forall>info \<in> set infos. info_index info \<noteq> 1 \<Longrightarrow> snd (draw_examples y e2 infos) = e2"
proof (induction infos arbitrary: y e2)
  case Nil show ?case by simp
next
  case (Cons info infos)
  then show ?case by (simp add: draw_examples_Cons del: draw_examples.simps)
qed

lemma enumerate_index_ge: "p \<in> set (enumerate n xs) \<Longrightarrow> n \<le> fst p"
  by (auto simp add: in_set_enumerate_eq)

lemma draw_example_parts:
  "draw_example y info =
     ([Text MARGIN y (''Example '' @ str_nat (info_index info + 1)) (0, 0, 0),
       Text MARGIN (y + LABEL_HEIGHT) ''Input'' (0, 0, 0)]
      @ draw_grid (info_input info) MARGIN (y + LABEL_HEIGHT + LABEL_HEIGHT) CELL_SIZE GRID_PADDING
      @ [Text (MARGIN + int (fst (info_input_size info)) * (CELL_SIZE + GRID_PADDING) + GRID_SPACING)
           (y + LABEL_HEIGHT) ''Output'' (0, 0, 0)]
      @ draw_grid (info_output info)
          (MARGIN + int (fst (info_input_size info)) * (CELL_SIZE + GRID_PADDING) + GRID_SPACING)
          (y + LABEL_HEIGHT + LABEL_HEIGHT) CELL_SIZE GRID_PADDING,
      y + LABEL_HEIGHT + LABEL_HEIGHT)"
  by (simp add: draw_example_def Let_def split: prod.splits)

lemma create_puzzle_image_with_test:
  assumes "dict_get (test data) = t0 # ts"
  shows "create_puzzle_image data =
     (let trn = dict_get (train data);
          inp = dict_get (pair_input t0);
          out = dict_get (pair_output t0);
          iw = fst (get_grid_size inp);
          ih = snd (get_grid_size inp);
          ow = (if out \<noteq> [] then fst (get_grid_size out) else iw);
          oh = (if out \<noteq> [] then snd (get_grid_size out) else ih);
          test_x = examples_width trn + 2 * MARGIN + GRID_SPACING * 2 + MARGIN;
          left = draw_examples MARGIN None (train_infos trn);
          test_output_y =
            (case snd left of
               Some y \<Rightarrow> y
             | None \<Rightarrow> MARGIN + LABEL_HEIGHT + LABEL_HEIGHT
                         + (int ih * (CELL_SIZE + GRID_PADDING) + GRID_SPACING) + LABEL_HEIGHT)
      in Inr \<lparr>img_width = examples_width trn + 2 * MARGIN + GRID_SPACING * 2
                          + (int (max iw ow) * (CELL_SIZE + GRID_PADDING) + 2 * MARGIN),
              img_height = max (examples_height trn)
                             (LABEL_HEIGHT + LABEL_HEIGHT + int ih * (CELL_SIZE + GRID_PADDING)
                              + GRID_SPACING + LABEL_HEIGHT
                              + int oh * (CELL_SIZE + GRID_PADDING))
                           + MARGIN,
              background = (255, 255, 255),
              ops = fst left
                    @ [Text test_x MARGIN ''Test'' (0, 0, 0),
                       Text test_x (MARGIN + LABEL_HEIGHT) ''Input'' (0, 0, 0)]
                    @ draw_grid inp test_x (MARGIN + LABEL_HEIGHT + LABEL_HEIGHT)
                        CELL_SIZE GRID_PADDING
                    @ [Text test_x (test_output_y - LABEL_HEIGHT) ''Output'' (0, 0, 0)]
                    @ draw_blank_grid ow oh test_x test_output_y CELL_SIZE GRID_PADDING\<rparr>)"
  using assms
  by (simp add: create_puzzle_image_def process_train_views process_test_Cons
      draw_test_column_ops Let_def split: prod.splits option.splits)

lemma create_puzzle_image_no_test:
  assumes "dict_get (test data) = []" and "dict_get (train data) \<noteq> []"
  shows "create_puzzle_image data =
     Inr \<lparr>img_width = examples_width (dict_get (train data)) + 2 * MARGIN + GRID_SPACING * 2,
          img_height = max (examples_height (dict_get (train data))) 0 + MARGIN,
          background = (255, 255, 255),
          ops = fst (draw_examples MARGIN None (train_infos (dict_get (train data))))\<rparr>"
  using assms
  by (simp add: create_puzzle_image_def process_train_views process_test_def
      Let_def split: prod.splits)

lemma draw_examples_two:
  "draw_examples MARGIN None (train_infos (e0 # e1 # es)) =
     (let y2 = MARGIN + LABEL_HEIGHT + (LABEL_HEIGHT + pair_height e0 + GRID_SPACING);
          y3 = y2 + LABEL_HEIGHT + (LABEL_HEIGHT + pair_height e1 + GRID_SPACING);
          e2 = Some (snd (draw_example y2 (mk_info 1 e1)))
      in (fst (draw_example MARGIN (mk_info 0 e0)) @ fst (draw_example y2 (mk_info 1 e1))
          @ fst (draw_examples y3 e2 (map (\<lambda>(i, e). mk_info i e) (enumerate 2 es))),
          e2))"
proof -
  have "\<forall>info \<in> set (map (\<lambda>(i, e). mk_info i e) (enumerate 2 es)). info_index info \<noteq> 1"
    by (auto simp add: mk_info_def dest: enumerate_index_ge)
  then show ?thesis
    by (simp add: train_infos_map draw_examples_Cons draw_examples_keeps mk_info_def Let_def
        eval_nat_numeral add.assoc del: draw_examples.simps)
qed

lemma draw_examples_short:
  "length trn < 2 \<Longrightarrow> snd (draw_examples MARGIN None (train_infos trn)) = None"
  by (rule draw_examples_keeps) (auto simp add: train_infos_map mk_info_def in_set_enumerate_eq)

lemma str_nat_2: "str_nat (Suc (Suc 0)) = ''2''"
  by (simp add: str_nat.simps)

lemma get_grid_size_empty_iff: "get_grid_size g = get_grid_size g' \<Longrightarrow> g = [] \<longleftrightarrow> g' = []"
  by (cases g; cases g') (simp_all add: get_grid_size_def)

lemma draw_grid_op_x:
  assumes "0 \<le> cell_size + grid_padding"
    and "op \<in> set (draw_grid grid x_offset y_offset cell_size grid_padding)"
  shows "x_offset \<le> op_x op"
proof (cases grid)
  case Nil
  with assms show ?thesis by (simp add: draw_grid_def)
next
  case (Cons row0 rows)
  with assms(2) have "\<exists>x::nat. op_x op = x_offset + int x * (cell_size + grid_padding)"
    by (auto simp add: draw_grid_def Let_def simp del: upt_Suc)
  then obtain x :: nat where
    "op_x op = x_offset + int x * (cell_size + grid_padding)" ..
  moreover have "0 \<le> int x * (cell_size + grid_padding)"
    using assms(1) by simp
  ultimately show ?thesis by simp
qed

lemma draw_blank_grid_op_x:
  assumes "0 \<le> cell_size + grid_padding"
    and "op \<in> set (draw_blank_grid w h x_offset y_offset cell_size grid_padding)"
  shows "x_offset \<le> op_x op"
proof -
  from assms(2) have "\<exists>x::nat. op_x op = x_offset + int x * (cell_size + grid_padding)"
    by (auto simp add: draw_blank_grid_def Let_def simp del: upt_Suc)
  then obtain x :: nat where
    "op_x op = x_offset + int x * (cell_size + grid_padding)" ..
  moreover have "0 \<le> int x * (cell_size + grid_padding)"
    using assms(1) by simp
  ultimately show ?thesis by simp
qed

lemma cell_step_nonneg: "0 \<le> CELL_SIZE + GRID_PADDING"
  by (simp add: CELL_SIZE_def GRID_PADDING_def)

lemma test_column_height_Cons:
  "test_column_height (t0 # ts) =
     LABEL_HEIGHT + LABEL_HEIGHT
     + int (snd (get_grid_size (dict_get (pair_input t0)))) * (CELL_SIZE + GRID_PADDING)
     + GRID_SPACING + LABEL_HEIGHT
     + int (if dict_get (pair_output t0) \<noteq> []
            then snd (get_grid_size (dict_get (pair_output t0)))
            else snd (get_grid_size (dict_get (pair_input t0)))) * (CELL_SIZE + GRID_PADDING)"
  by (simp add: test_column_height_def process_test_Cons Let_def)

lemma test_column_height_Nil: "test_column_height [] = 0"
  by (simp add: test_column_height_def process_test_def)

lemmas layout_consts = MARGIN_def LABEL_HEIGHT_def CELL_SIZE_def GRID_PADDING_def GRID_SPACING_def

lemmas eval_defs = dict_get_def get_grid_size_def draw_grid_def draw_blank_grid_def
  cell_color_def arc_color_def ARC_COLORS_def draw_example_def str_nat.simps
  process_test_def draw_test_column_def Let_def

lemma puzzle_doc_two_examples:
  "create_puzzle_image doc_two_examples =
     Inr \<lparr>img_width = 200, img_height = 220, background = (255, 255, 255),
          ops = [Text 20 20 ''Example 1'' (0, 0, 0),
                 Text 20 50 ''Input'' (0, 0, 0),
                 Rectangle 20 80 39 99 (0, 116, 217) (100, 100, 100),
                 Text 60 50 ''Output'' (0, 0, 0),
                 Rectangle 60 80 79 99 (255, 65, 54) (100, 100, 100),
                 Text 20 120 ''Example 2'' (0, 0, 0),
                 Text 20 150 ''Input'' (0, 0, 0),
                 Rectangle 20 180 39 199 (0, 116, 217) (100, 100, 100),
                 Text 60 150 ''Output'' (0, 0, 0),
                 Rectangle 60 180 79 199 (255, 65, 54) (100, 100, 100),
                 Text 160 20 ''Test'' (0, 0, 0),
                 Text 160 50 ''Input'' (0, 0, 0),
                 Rectangle 160 80 179 99 (46, 204, 64) (100, 100, 100),
                 Text 160 150 ''Output'' (0, 0, 0),
                 Rectangle 160 180 179 199 (255, 255, 255) (200, 200, 200),
                 Rectangle 160 200 179 219 (255, 255, 255) (200, 200, 200),
                 Rectangle 160 220 179 239 (255, 255, 255) (200, 200, 200)]\<rparr>"
  by (simp add: doc_two_examples_def create_puzzle_image_def eval_defs layout_consts
      enumerate_eq_zip)

lemma train_doc_two_examples:
  "dict_get (train doc_two_examples) =
     [\<lparr>pair_input = Some [[1]], pair_output = Some [[2]]\<rparr>,
      \<lparr>pair_input = Some [[1]], pair_output = Some [[2]]\<rparr>]"
  by (simp add: doc_two_examples_def dict_get_def)

lemma test_doc_two_examples:
  "dict_get (test doc_two_examples) =
     [\<lparr>pair_input = Some [[3]], pair_output = Some [[4], [4], [4]]\<rparr>]"
  by (simp add: doc_two_examples_def dict_get_def)

lemma train_doc_roundtrip:
  "dict_get (train doc_roundtrip) = [\<lparr>pair_input = Some [[1]], pair_output = Some [[2]]\<rparr>]"
  by (simp add: doc_roundtrip_def dict_get_def)

lemma test_doc_roundtrip:
  "dict_get (test doc_roundtrip) = [\<lparr>pair_input = Some [[3]], pair_output = None\<rparr>]"
  by (simp add: doc_roundtrip_def dict_get_def)

lemma examples_width_one_cell_pairs:
  "examples_width [\<lparr>pair_input = Some [[1]], pair_output = Some [[2]]\<rparr>,
                   \<lparr>pair_input = Some [[1]], pair_output = Some [[2]]\<rparr>] = 60"
  "examples_width [\<lparr>pair_input = Some [[1]], pair_output = Some [[2]]\<rparr>] = 60"
  by (simp_all add: examples_width_fold pair_width_def dict_get_def get_grid_size_def layout_consts)

lemma create_puzzle_image_test_Nil:
  assumes "dict_get (test d1) = []" and "dict_get (test d2) = []" and "train d1 = train d2"
  shows "create_puzzle_image d1 = create_puzzle_image d2"
  using assms by (simp add: create_puzzle_image_def)

lemma try_create_step_failure:
  "try_create save output_dir base_name kind created p =
     (case step_failure save output_dir base_name kind created of
        Some e \<Rightarrow> Inl e
      | None \<Rightarrow>
          Inr (p\<lparr>files := files p
                    @ [(output_dir @ ''/'' @ base_name @ ''-'' @ kind @ ''.png'', projr created)],
                 stdout := stdout p
                    @ [''Created: '' @ output_dir @ ''/'' @ base_name @ ''-'' @ kind @ ''.png'']\<rparr>))"
  by (simp add: try_create_def step_failure_def Let_def split: sum.splits option.splits)

lemma isl_create_puzzle_image:
  "isl (create_puzzle_image data) \<longleftrightarrow> dict_get (train data) = [] \<and> dict_get (test data) = []"
  by (simp add: create_puzzle_image_def Let_def split: prod.splits)

lemma isl_create_examples_image:
  "isl (create_examples_image data) \<longleftrightarrow> dict_get (train data) = []"
  by (simp add: create_examples_image_def Let_def split: prod.splits)

lemma create_examples_image_no_train:
  "dict_get (train data) = [] \<Longrightarrow>
     create_examples_image data = Inl (ValueError ''No train data found'')"
  by (simp add: create_examples_image_def)

lemma step_failure_save_ok:
  "step_failure (\<lambda>path img. None) output_dir base_name kind created =
     (case created of Inl e \<Rightarrow> Some e | Inr img \<Rightarrow> None)"
  by (simp add: step_failure_def)

lemma step_failure_Inr:
  "step_failure save output_dir base_name kind (Inr img) =
     save (output_dir @ ''/'' @ base_name @ ''-'' @ kind @ ''.png'') img"
  by (simp add: step_failure_def)

lemma not_isl_obtain: "\<not> isl v \<Longrightarrow> \<exists>img. v = Inr img"
  by (cases v) simp_all

lemma draw_blank_grid_length:
  "length (draw_blank_grid w h x_offset y_offset cell_size grid_padding) = h * w"
  by (simp add: draw_blank_grid_def length_concat_map_upt del: upt_Suc)

lemma draw_blank_grid_nth:
  assumes "y < h" and "x < w"
  shows "draw_blank_grid w h x_offset y_offset cell_size grid_padding ! (y * w + x)
         = Rectangle (x_offset + int x * (cell_size + grid_padding))
                     (y_offset + int y * (cell_size + grid_padding))
                     (x_offset + int x * (cell_size + grid_padding) + cell_size - 1)
                     (y_offset + int y * (cell_size + grid_padding) + cell_size - 1)
                     (255, 255, 255) (200, 200, 200)"
  using nth_concat_map_upt [OF assms]
  by (simp add: draw_blank_grid_def Let_def del: upt_Suc)

subsection \<open>Missing data\<close>

text \<open>
  Claim C5. \<open>create_puzzle_image\<close> raises its \<open>ValueError\<close> (the NoData condition)
  exactly when the \<open>train\<close> and the \<open>test\<close> sequence are both empty, each either an
  absent key or an empty list. It has no other failure: when one of the two sequences
  is non-empty it returns an image.
\<close>

theorem puzzle_nodata_iff:
  "(create_puzzle_image data = Inl (ValueError ''No train or test data found'')
      \<longleftrightarrow> dict_get (train data) = [] \<and> dict_get (test data) = [])
   \<and> (isl (create_puzzle_image data)
      \<longleftrightarrow> dict_get (train data) = [] \<and> dict_get (test data) = [])
   \<and> (dict_get (train data) = [] \<longleftrightarrow> train data = None \<or> train data = Some [])
   \<and> (dict_get (test data) = [] \<longleftrightarrow> test data = None \<or> test data = Some [])"
  by (simp add: create_puzzle_image_def Let_def dict_get_empty_iff split: prod.splits)

theorem puzzle_nodata_iff_witness:
  "create_puzzle_image \<lparr>train = None, test = Some []\<rparr>
     = Inl (ValueError ''No train or test data found'')
   \<and> \<not> isl (create_puzzle_image doc_roundtrip)
   \<and> \<not> isl (create_puzzle_image \<lparr>train = None, test = Some [\<lparr>pair_input = None, pair_output = None\<rparr>]\<rparr>)"
  using puzzle_nodata_iff [of "\<lparr>train = None, test = Some []\<rparr>"]
    puzzle_nodata_iff [of doc_roundtrip]
    puzzle_nodata_iff [of "\<lparr>train = None, test = Some [\<lparr>pair_input = None, pair_output = None\<rparr>]\<rparr>"]
  by (simp add: doc_roundtrip_def dict_get_def)

text \<open>
  Claim C6, as amended. The answer composition returns an image exactly when the first
  test pair has a present, non-empty output, and the test composition exactly when the
  first test pair has a present, non-empty input; every failure of either is a
  \<open>ValueError\<close> (NoData). So for a document whose first test pair has a non-empty input
  and no output (absent, or an empty list), the answer composition fails with NoData
  and the test composition succeeds.
\<close>

theorem answer_and_test_requirements:
  "(\<not> isl (create_answer_image data)
      \<longleftrightarrow> (\<exists>t0 ts out. test data = Some (t0 # ts) \<and> pair_output t0 = Some out \<and> out \<noteq> []))
   \<and> (\<not> isl (create_test_image data)
      \<longleftrightarrow> (\<exists>t0 ts inp. test data = Some (t0 # ts) \<and> pair_input t0 = Some inp \<and> inp \<noteq> []))
   \<and> (isl (create_answer_image data) \<longrightarrow> (\<exists>m. create_answer_image data = Inl (ValueError m)))
   \<and> (isl (create_test_image data) \<longrightarrow> (\<exists>m. create_test_image data = Inl (ValueError m)))
   \<and> (\<forall>t0 ts inp. test data = Some (t0 # ts) \<and> pair_input t0 = Some inp \<and> inp \<noteq> []
         \<and> dict_get (pair_output t0) = []
        \<longrightarrow> create_answer_image data = Inl (ValueError ''No test output found'')
            \<and> \<not> isl (create_test_image data))"
proof -
  have a: "\<not> isl (create_answer_image data)
      \<longleftrightarrow> (\<exists>t0 ts out. test data = Some (t0 # ts) \<and> pair_output t0 = Some out \<and> out \<noteq> [])"
    unfolding create_answer_image_cases
    by (cases "test data"; cases "dict_get (test data)")
       (auto simp add: dict_get_def split: list.splits option.splits)
  have b: "\<not> isl (create_test_image data)
      \<longleftrightarrow> (\<exists>t0 ts inp. test data = Some (t0 # ts) \<and> pair_input t0 = Some inp \<and> inp \<noteq> [])"
    unfolding create_test_image_cases
    by (cases "test data"; cases "dict_get (test data)")
       (auto simp add: dict_get_def Let_def split: list.splits option.splits)
  have c: "isl (create_answer_image data) \<longrightarrow> (\<exists>m. create_answer_image data = Inl (ValueError m))"
    unfolding create_answer_image_cases by (simp split: list.splits)
  have d: "isl (create_test_image data) \<longrightarrow> (\<exists>m. create_test_image data = Inl (ValueError m))"
    unfolding create_test_image_cases by (simp add: Let_def split: list.splits)
  have e: "\<forall>t0 ts inp. test data = Some (t0 # ts) \<and> pair_input t0 = Some inp \<and> inp \<noteq> []
         \<and> dict_get (pair_output t0) = []
        \<longrightarrow> create_answer_image data = Inl (ValueError ''No test output found'')
            \<and> \<not> isl (create_test_image data)"
    unfolding create_answer_image_cases create_test_image_cases
    by (simp add: dict_get_def Let_def)
  from a b c d e show ?thesis by blast
qed

theorem answer_and_test_requirements_witness:
  "test doc_roundtrip = Some [\<lparr>pair_input = Some [[3]], pair_output = None\<rparr>]
   \<and> create_answer_image doc_roundtrip = Inl (ValueError ''No test output found'')
   \<and> \<not> isl (create_test_image doc_roundtrip)"
proof -
  let ?t = "\<lparr>pair_input = Some [[3]], pair_output = None\<rparr>"
  have t: "test doc_roundtrip = Some (?t # [])"
    by (simp add: doc_roundtrip_def)
  have "test doc_roundtrip = Some (?t # []) \<and> pair_input ?t = Some [[3]] \<and> [[3::int]] \<noteq> []
        \<and> dict_get (pair_output ?t) = []"
    using t by (simp add: dict_get_def)
  with answer_and_test_requirements [of doc_roundtrip]
  have "create_answer_image doc_roundtrip = Inl (ValueError ''No test output found'')
        \<and> \<not> isl (create_test_image doc_roundtrip)"
    by blast
  with t show ?thesis by simp
qed

text \<open>
  The claim as it was stated asks only for a present input. An input that is present
  and empty is refused by the test composition (\<open>if not test_input\<close>).
\<close>

theorem test_image_empty_input_counterexample:
  "pair_input (hd (dict_get (test doc_empty_test_input))) = Some []
   \<and> pair_output (hd (dict_get (test doc_empty_test_input))) = None
   \<and> create_test_image doc_empty_test_input = Inl (ValueError ''No test input found'')"
  by (simp add: doc_empty_test_input_def dict_get_def create_test_image_def)

subsection \<open>The test composition\<close>

text \<open>
  Claim C8, as amended. For a first test pair with a non-empty input, the test
  composition draws, from top to bottom in one column at the left margin: the label
  \<open>Test\<close>, the label \<open>Input\<close>, the input grid, after a gap of \<open>GRID_SPACING\<close> the label
  \<open>Output\<close>, and one label height below it a blank grid. The blank grid has the
  dimensions of the real output when that is present and non-empty, and the dimensions
  of the input otherwise (output absent or an empty list). Only these dimensions enter
  the image: each of its cells is white with the outline \<open>(200, 200, 200)\<close>.
\<close>

theorem test_image_layout:
  assumes "dict_get (test data) = t0 # ts"
    and "dict_get (pair_input t0) = inp" and "inp \<noteq> []"
    and "dict_get (pair_output t0) = out"
    and "get_grid_size inp = (iw, ih)"
    and "(if out \<noteq> [] then get_grid_size out else (iw, ih)) = (ow, oh)"
    and "grid_y = MARGIN + LABEL_HEIGHT + LABEL_HEIGHT"
    and "label_y = grid_y + (int ih * (CELL_SIZE + GRID_PADDING) + GRID_SPACING)"
  shows "create_test_image data =
           Inr \<lparr>img_width = int (max iw ow) * (CELL_SIZE + GRID_PADDING) + 2 * MARGIN,
                img_height = LABEL_HEIGHT + LABEL_HEIGHT
                             + int ih * (CELL_SIZE + GRID_PADDING) + GRID_SPACING
                             + LABEL_HEIGHT + int oh * (CELL_SIZE + GRID_PADDING) + MARGIN,
                background = (255, 255, 255),
                ops = [Text MARGIN MARGIN ''Test'' (0, 0, 0),
                       Text MARGIN (MARGIN + LABEL_HEIGHT) ''Input'' (0, 0, 0)]
                      @ draw_grid inp MARGIN grid_y CELL_SIZE GRID_PADDING
                      @ [Text MARGIN label_y ''Output'' (0, 0, 0)]
                      @ draw_blank_grid ow oh MARGIN (label_y + LABEL_HEIGHT)
                          CELL_SIZE GRID_PADDING\<rparr>
         \<and> (\<forall>op \<in> set (draw_blank_grid ow oh MARGIN (label_y + LABEL_HEIGHT)
                          CELL_SIZE GRID_PADDING).
               \<exists>x0 y0 x1 y1. op = Rectangle x0 y0 x1 y1 (255, 255, 255) (200, 200, 200))"
proof -
  from assms(6) have "ow = (if out \<noteq> [] then fst (get_grid_size out) else iw)"
    and "oh = (if out \<noteq> [] then snd (get_grid_size out) else ih)"
    by (auto split: if_splits)
  with assms show ?thesis
    unfolding create_test_image_cases
    by (auto simp add: Let_def dest: draw_blank_grid_white)
qed

theorem test_image_layout_witness:
  "dict_get (test doc_roundtrip) = [\<lparr>pair_input = Some [[3]], pair_output = None\<rparr>]
   \<and> create_test_image doc_roundtrip =
     Inr \<lparr>img_width = 60, img_height = 170, background = (255, 255, 255),
          ops = [Text 20 20 ''Test'' (0, 0, 0), Text 20 50 ''Input'' (0, 0, 0),
                 Rectangle 20 80 39 99 (46, 204, 64) (100, 100, 100),
                 Text 20 120 ''Output'' (0, 0, 0),
                 Rectangle 20 150 39 169 (255, 255, 255) (200, 200, 200)]\<rparr>"
proof -
  let ?t = "\<lparr>pair_input = Some [[3]], pair_output = None\<rparr>"
  have inp: "dict_get (pair_input ?t) = [[3]]" and ne: "[[3::int]] \<noteq> []"
    and out: "dict_get (pair_output ?t) = []"
    and size: "get_grid_size [[3]] = (1, 1)"
    and osize: "(if ([]::grid) \<noteq> [] then get_grid_size [] else (1, 1)) = (1, 1)"
    and gy: "(80::int) = MARGIN + LABEL_HEIGHT + LABEL_HEIGHT"
    and ly: "(120::int) = 80 + (int 1 * (CELL_SIZE + GRID_PADDING) + GRID_SPACING)"
    by (simp_all add: dict_get_def get_grid_size_def layout_consts)
  from test_image_layout [OF test_doc_roundtrip inp ne out size osize gy ly]
  have "create_test_image doc_roundtrip =
     Inr \<lparr>img_width = 60, img_height = 170, background = (255, 255, 255),
          ops = [Text 20 20 ''Test'' (0, 0, 0), Text 20 50 ''Input'' (0, 0, 0),
                 Rectangle 20 80 39 99 (46, 204, 64) (100, 100, 100),
                 Text 20 120 ''Output'' (0, 0, 0),
                 Rectangle 20 150 39 169 (255, 255, 255) (200, 200, 200)]\<rparr>"
    by (simp add: draw_grid_def draw_blank_grid_def cell_color_def arc_color_def ARC_COLORS_def
        layout_consts)
  with test_doc_roundtrip show ?thesis by simp
qed

text \<open>
  The claim as it was stated takes the real output's dimensions whenever an output is
  present. An output that is present and empty has the dimensions \<open>(0, 0)\<close>, for which
  the blank grid would have no cell; the program draws a blank grid of the input's
  dimensions instead (\<open>if test_output\<close>).
\<close>

theorem test_image_empty_output_counterexample:
  "pair_output (hd (dict_get (test doc_empty_test_output))) = Some []
   \<and> get_grid_size [] = (0, 0)
   \<and> draw_blank_grid 0 0 20 150 20 0 = []
   \<and> create_test_image doc_empty_test_output =
     Inr \<lparr>img_width = 60, img_height = 170, background = (255, 255, 255),
          ops = [Text 20 20 ''Test'' (0, 0, 0), Text 20 50 ''Input'' (0, 0, 0),
                 Rectangle 20 80 39 99 (46, 204, 64) (100, 100, 100),
                 Text 20 120 ''Output'' (0, 0, 0),
                 Rectangle 20 150 39 169 (255, 255, 255) (200, 200, 200)]\<rparr>"
  by (simp add: doc_empty_test_output_def dict_get_def get_grid_size_def create_test_image_def
      draw_grid_def draw_blank_grid_def cell_color_def arc_color_def ARC_COLORS_def
      MARGIN_def LABEL_HEIGHT_def CELL_SIZE_def GRID_PADDING_def GRID_SPACING_def)

subsection \<open>Where the puzzle composition puts the blank test output\<close>

text \<open>
  Claim C1. Take a document with a test pair; \<open>test_head\<close> is what the right column
  starts with (the labels \<open>Test\<close> and \<open>Input\<close> and the test input grid at \<open>input_y\<close>).

  With at least two training pairs \<open>e0\<close>, \<open>e1\<close>, ... the draw calls of the image are
  those of Example 1, then those of Example 2, whose output grid is drawn at the
  vertical offset \<open>example2_output_y\<close>, then those of the later examples, then the right
  column: \<open>test_head\<close>, the label \<open>Output\<close> at \<open>example2_output_y - LABEL_HEIGHT\<close> and the
  blank grid at the vertical offset \<open>example2_output_y\<close>.

  With fewer than two training pairs the right column is stacked: after \<open>test_head\<close>
  the label \<open>Output\<close> comes at the input grid's offset plus the input height plus
  \<open>GRID_SPACING\<close>, and the blank grid one \<open>LABEL_HEIGHT\<close> below the label.
\<close>

theorem puzzle_test_output_position:
  assumes "dict_get (train data) = trn" and "dict_get (test data) = t0 # ts"
    and "dict_get (pair_input t0) = inp" and "dict_get (pair_output t0) = out"
    and "get_grid_size inp = (iw, ih)"
    and "(if out \<noteq> [] then get_grid_size out else (iw, ih)) = (ow, oh)"
    and "test_x = examples_width trn + 2 * MARGIN + GRID_SPACING * 2 + MARGIN"
    and "input_y = MARGIN + LABEL_HEIGHT + LABEL_HEIGHT"
    and "test_head = [Text test_x MARGIN ''Test'' (0, 0, 0),
                      Text test_x (MARGIN + LABEL_HEIGHT) ''Input'' (0, 0, 0)]
                     @ draw_grid inp test_x input_y CELL_SIZE GRID_PADDING"
  shows "(\<forall>e0 e1 es y2 y3 output_x example2_output_y.
            trn = e0 # e1 # es
            \<and> y2 = MARGIN + LABEL_HEIGHT + (LABEL_HEIGHT + pair_height e0 + GRID_SPACING)
            \<and> y3 = y2 + LABEL_HEIGHT + (LABEL_HEIGHT + pair_height e1 + GRID_SPACING)
            \<and> output_x = MARGIN
                 + int (fst (get_grid_size (dict_get (pair_input e1)))) * (CELL_SIZE + GRID_PADDING)
                 + GRID_SPACING
            \<and> example2_output_y = y2 + LABEL_HEIGHT + LABEL_HEIGHT
          \<longrightarrow> (\<exists>img. create_puzzle_image data = Inr img
                \<and> ops img =
                    fst (draw_example MARGIN (mk_info 0 e0))
                    @ [Text MARGIN y2 ''Example 2'' (0, 0, 0),
                       Text MARGIN (y2 + LABEL_HEIGHT) ''Input'' (0, 0, 0)]
                    @ draw_grid (dict_get (pair_input e1)) MARGIN example2_output_y
                        CELL_SIZE GRID_PADDING
                    @ [Text output_x (y2 + LABEL_HEIGHT) ''Output'' (0, 0, 0)]
                    @ draw_grid (dict_get (pair_output e1)) output_x example2_output_y
                        CELL_SIZE GRID_PADDING
                    @ fst (draw_examples y3 (Some example2_output_y)
                             (map (\<lambda>(i, e). mk_info i e) (enumerate 2 es)))
                    @ test_head
                    @ [Text test_x (example2_output_y - LABEL_HEIGHT) ''Output'' (0, 0, 0)]
                    @ draw_blank_grid ow oh test_x example2_output_y CELL_SIZE GRID_PADDING))
       \<and> (\<forall>label_y.
            length trn < 2
            \<and> label_y = input_y + (int ih * (CELL_SIZE + GRID_PADDING) + GRID_SPACING)
          \<longrightarrow> (\<exists>img. create_puzzle_image data = Inr img
                \<and> ops img =
                    fst (draw_examples MARGIN None (train_infos trn))
                    @ test_head
                    @ [Text test_x label_y ''Output'' (0, 0, 0)]
                    @ draw_blank_grid ow oh test_x (label_y + LABEL_HEIGHT)
                        CELL_SIZE GRID_PADDING))"
proof -
  from assms(6) have ow: "ow = (if out \<noteq> [] then fst (get_grid_size out) else iw)"
    and oh: "oh = (if out \<noteq> [] then snd (get_grid_size out) else ih)"
    by (auto split: if_splits)
  note img = create_puzzle_image_with_test [OF assms(2)]
  have two: "\<exists>img. create_puzzle_image data = Inr img
                \<and> ops img =
                    fst (draw_example MARGIN (mk_info 0 e0))
                    @ [Text MARGIN y2 ''Example 2'' (0, 0, 0),
                       Text MARGIN (y2 + LABEL_HEIGHT) ''Input'' (0, 0, 0)]
                    @ draw_grid (dict_get (pair_input e1)) MARGIN example2_output_y
                        CELL_SIZE GRID_PADDING
                    @ [Text output_x (y2 + LABEL_HEIGHT) ''Output'' (0, 0, 0)]
                    @ draw_grid (dict_get (pair_output e1)) output_x example2_output_y
                        CELL_SIZE GRID_PADDING
                    @ fst (draw_examples y3 (Some example2_output_y)
                             (map (\<lambda>(i, e). mk_info i e) (enumerate 2 es)))
                    @ test_head
                    @ [Text test_x (example2_output_y - LABEL_HEIGHT) ''Output'' (0, 0, 0)]
                    @ draw_blank_grid ow oh test_x example2_output_y CELL_SIZE GRID_PADDING"
    if "trn = e0 # e1 # es"
      and "y2 = MARGIN + LABEL_HEIGHT + (LABEL_HEIGHT + pair_height e0 + GRID_SPACING)"
      and "y3 = y2 + LABEL_HEIGHT + (LABEL_HEIGHT + pair_height e1 + GRID_SPACING)"
      and "output_x = MARGIN
                 + int (fst (get_grid_size (dict_get (pair_input e1)))) * (CELL_SIZE + GRID_PADDING)
                 + GRID_SPACING"
      and "example2_output_y = y2 + LABEL_HEIGHT + LABEL_HEIGHT"
    for e0 e1 es y2 y3 output_x example2_output_y
  proof -
    have ex1: "draw_example y2 (mk_info 1 e1) =
       ([Text MARGIN y2 ''Example 2'' (0, 0, 0),
         Text MARGIN (y2 + LABEL_HEIGHT) ''Input'' (0, 0, 0)]
        @ draw_grid (dict_get (pair_input e1)) MARGIN example2_output_y CELL_SIZE GRID_PADDING
        @ [Text output_x (y2 + LABEL_HEIGHT) ''Output'' (0, 0, 0)]
        @ draw_grid (dict_get (pair_output e1)) output_x example2_output_y
            CELL_SIZE GRID_PADDING,
        example2_output_y)"
      using that(4,5) by (simp add: draw_example_parts mk_info_def str_nat_2)
    have left: "draw_examples MARGIN None (train_infos trn) =
       (fst (draw_example MARGIN (mk_info 0 e0)) @ fst (draw_example y2 (mk_info 1 e1))
        @ fst (draw_examples y3 (Some example2_output_y)
                 (map (\<lambda>(i, e). mk_info i e) (enumerate 2 es))),
        Some example2_output_y)"
      using ex1 unfolding that(1,2,3,5) by (simp add: draw_examples_two Let_def add.assoc)
    from ex1 have ex1': "fst (draw_example y2 (mk_info (Suc 0) e1)) =
        [Text MARGIN y2 ''Example 2'' (0, 0, 0),
         Text MARGIN (y2 + LABEL_HEIGHT) ''Input'' (0, 0, 0)]
        @ draw_grid (dict_get (pair_input e1)) MARGIN example2_output_y CELL_SIZE GRID_PADDING
        @ [Text output_x (y2 + LABEL_HEIGHT) ''Output'' (0, 0, 0)]
        @ draw_grid (dict_get (pair_output e1)) output_x example2_output_y
            CELL_SIZE GRID_PADDING"
      by simp
    show ?thesis
      unfolding img using assms(1,3,4,5,7,8,9) ow oh
      by (simp add: Let_def left ex1')
  qed
  have short: "\<exists>img. create_puzzle_image data = Inr img
                \<and> ops img =
                    fst (draw_examples MARGIN None (train_infos trn))
                    @ test_head
                    @ [Text test_x label_y ''Output'' (0, 0, 0)]
                    @ draw_blank_grid ow oh test_x (label_y + LABEL_HEIGHT)
                        CELL_SIZE GRID_PADDING"
    if "length trn < 2"
      and "label_y = input_y + (int ih * (CELL_SIZE + GRID_PADDING) + GRID_SPACING)"
    for label_y
  proof -
    have "snd (draw_examples MARGIN None (train_infos trn)) = None"
      using that(1) by (rule draw_examples_short)
    then show ?thesis
      unfolding img using assms(1,3,4,5,7,8,9) ow oh that(2)
      by (simp add: Let_def)
  qed
  from two short show ?thesis by blast
qed

theorem puzzle_test_output_position_witness:
  "2 \<le> length (dict_get (train doc_two_examples))
   \<and> (\<exists>img. create_puzzle_image doc_two_examples = Inr img
      \<and> ops img =
          [Text 20 20 ''Example 1'' (0, 0, 0),
           Text 20 50 ''Input'' (0, 0, 0),
           Rectangle 20 80 39 99 (0, 116, 217) (100, 100, 100),
           Text 60 50 ''Output'' (0, 0, 0),
           Rectangle 60 80 79 99 (255, 65, 54) (100, 100, 100),
           Text 20 120 ''Example 2'' (0, 0, 0),
           Text 20 150 ''Input'' (0, 0, 0),
           Rectangle 20 180 39 199 (0, 116, 217) (100, 100, 100),
           Text 60 150 ''Output'' (0, 0, 0),
           Rectangle 60 180 79 199 (255, 65, 54) (100, 100, 100),
           Text 160 20 ''Test'' (0, 0, 0),
           Text 160 50 ''Input'' (0, 0, 0),
           Rectangle 160 80 179 99 (46, 204, 64) (100, 100, 100),
           Text 160 150 ''Output'' (0, 0, 0),
           Rectangle 160 180 179 199 (255, 255, 255) (200, 200, 200),
           Rectangle 160 200 179 219 (255, 255, 255) (200, 200, 200),
           Rectangle 160 220 179 239 (255, 255, 255) (200, 200, 200)])
   \<and> length (dict_get (train doc_roundtrip)) < 2
   \<and> (\<exists>img. create_puzzle_image doc_roundtrip = Inr img
      \<and> ops img =
          [Text 20 20 ''Example 1'' (0, 0, 0),
           Text 20 50 ''Input'' (0, 0, 0),
           Rectangle 20 80 39 99 (0, 116, 217) (100, 100, 100),
           Text 60 50 ''Output'' (0, 0, 0),
           Rectangle 60 80 79 99 (255, 65, 54) (100, 100, 100),
           Text 160 20 ''Test'' (0, 0, 0),
           Text 160 50 ''Input'' (0, 0, 0),
           Rectangle 160 80 179 99 (46, 204, 64) (100, 100, 100),
           Text 160 120 ''Output'' (0, 0, 0),
           Rectangle 160 150 179 169 (255, 255, 255) (200, 200, 200)])"
proof -
  let ?e = "\<lparr>pair_input = Some [[1]], pair_output = Some [[2]]\<rparr>"
  let ?head = "[Text 160 20 ''Test'' (0, 0, 0), Text 160 50 ''Input'' (0, 0, 0)]
               @ draw_grid [[3]] 160 80 CELL_SIZE GRID_PADDING"
  have size3: "get_grid_size [[3]] = (1, 1)"
    by (simp add: get_grid_size_def)
  have x2: "(160::int) = examples_width [?e, ?e] + 2 * MARGIN + GRID_SPACING * 2 + MARGIN"
    and x1: "(160::int) = examples_width [?e] + 2 * MARGIN + GRID_SPACING * 2 + MARGIN"
    and y: "(80::int) = MARGIN + LABEL_HEIGHT + LABEL_HEIGHT"
    and h: "?head = [Text 160 MARGIN ''Test'' (0, 0, 0),
                     Text 160 (MARGIN + LABEL_HEIGHT) ''Input'' (0, 0, 0)]
                    @ draw_grid [[3]] 160 80 CELL_SIZE GRID_PADDING"
    by (simp_all add: examples_width_one_cell_pairs layout_consts)
  have out2: "(if [[4], [4], [4]] \<noteq> [] then get_grid_size [[4], [4], [4::int]] else (1, 1)) = (1, 3)"
    by (simp add: get_grid_size_def)
  have out1: "(if ([]::grid) \<noteq> [] then get_grid_size [] else (1, 1)) = (1, 1)"
    by simp
  have in2: "dict_get (pair_input \<lparr>pair_input = Some [[3]], pair_output = Some [[4], [4], [4]]\<rparr>) = [[3]]"
    and o2: "dict_get (pair_output \<lparr>pair_input = Some [[3]], pair_output = Some [[4], [4], [4]]\<rparr>)
              = [[4], [4], [4]]"
    and in1: "dict_get (pair_input \<lparr>pair_input = Some [[3]], pair_output = None\<rparr>) = [[3]]"
    and o1: "dict_get (pair_output \<lparr>pair_input = Some [[3]], pair_output = None\<rparr>) = []"
    by (simp_all add: dict_get_def)
  note two = puzzle_test_output_position
    [OF train_doc_two_examples test_doc_two_examples in2 o2 size3 out2 x2 y h, THEN conjunct1,
     rule_format, of ?e ?e "[]" 120 220 60 180]
  note one = puzzle_test_output_position
    [OF train_doc_roundtrip test_doc_roundtrip in1 o1 size3 out1 x1 y h, THEN conjunct2,
     rule_format, of 120]
  have "\<exists>img. create_puzzle_image doc_two_examples = Inr img
      \<and> ops img =
          [Text 20 20 ''Example 1'' (0, 0, 0),
           Text 20 50 ''Input'' (0, 0, 0),
           Rectangle 20 80 39 99 (0, 116, 217) (100, 100, 100),
           Text 60 50 ''Output'' (0, 0, 0),
           Rectangle 60 80 79 99 (255, 65, 54) (100, 100, 100),
           Text 20 120 ''Example 2'' (0, 0, 0),
           Text 20 150 ''Input'' (0, 0, 0),
           Rectangle 20 180 39 199 (0, 116, 217) (100, 100, 100),
           Text 60 150 ''Output'' (0, 0, 0),
           Rectangle 60 180 79 199 (255, 65, 54) (100, 100, 100),
           Text 160 20 ''Test'' (0, 0, 0),
           Text 160 50 ''Input'' (0, 0, 0),
           Rectangle 160 80 179 99 (46, 204, 64) (100, 100, 100),
           Text 160 150 ''Output'' (0, 0, 0),
           Rectangle 160 180 179 199 (255, 255, 255) (200, 200, 200),
           Rectangle 160 200 179 219 (255, 255, 255) (200, 200, 200),
           Rectangle 160 220 179 239 (255, 255, 255) (200, 200, 200)]"
    using two
    by (simp add: pair_height_def mk_info_def eval_defs layout_consts eval_nat_numeral)
  moreover have "\<exists>img. create_puzzle_image doc_roundtrip = Inr img
      \<and> ops img =
          [Text 20 20 ''Example 1'' (0, 0, 0),
           Text 20 50 ''Input'' (0, 0, 0),
           Rectangle 20 80 39 99 (0, 116, 217) (100, 100, 100),
           Text 60 50 ''Output'' (0, 0, 0),
           Rectangle 60 80 79 99 (255, 65, 54) (100, 100, 100),
           Text 160 20 ''Test'' (0, 0, 0),
           Text 160 50 ''Input'' (0, 0, 0),
           Rectangle 160 80 179 99 (46, 204, 64) (100, 100, 100),
           Text 160 120 ''Output'' (0, 0, 0),
           Rectangle 160 150 179 169 (255, 255, 255) (200, 200, 200)]"
    using one
    by (simp add: train_infos_map pair_height_def mk_info_def eval_defs layout_consts
        eval_nat_numeral)
  ultimately show ?thesis
    by (simp add: train_doc_two_examples train_doc_roundtrip)
qed

subsection \<open>Canvas height and the horizontal place of the test column\<close>

text \<open>
  Claim C9, as amended. The puzzle composition of a document that is not empty returns
  an image whose height is the larger of the examples column's height (the sum over
  the training pairs of the pair's height, two label rows and \<open>GRID_SPACING\<close>) and the
  test column's height (0 without a test pair, else three label rows, the input height,
  \<open>GRID_SPACING\<close> and the blank output's height), plus \<open>MARGIN\<close>.
  With a test pair, the draw calls of the right column follow those of the examples,
  and they are exactly these, all at the horizontal offset
  \<open>test_x = left_column_width + 2 * GRID_SPACING + MARGIN\<close>: the labels \<open>Test\<close> and
  \<open>Input\<close> anchored at \<open>test_x\<close>, the input grid drawn with \<open>x_offset = test_x\<close>, the label
  \<open>Output\<close> anchored at \<open>test_x\<close>, and the blank grid drawn with \<open>x_offset = test_x\<close>. No
  draw call of the right column starts to the left of \<open>test_x\<close>. Here
  \<open>left_column_width\<close> is the examples' width plus two margins.
\<close>

theorem puzzle_canvas_height_and_test_offset:
  assumes "dict_get (train data) = trn" and "dict_get (test data) = tst"
    and "trn \<noteq> [] \<or> tst \<noteq> []"
    and "left_column_width = examples_width trn + 2 * MARGIN"
    and "test_x = left_column_width + 2 * GRID_SPACING + MARGIN"
  shows "\<exists>img. create_puzzle_image data = Inr img
      \<and> img_height img = max (examples_height trn) (test_column_height tst) + MARGIN
      \<and> examples_height trn = (\<Sum>e\<leftarrow>trn. pair_height e + LABEL_HEIGHT * 2 + GRID_SPACING)
      \<and> examples_width trn = fold (\<lambda>e w. max w (pair_width e)) trn 0
      \<and> (tst = [] \<longrightarrow> test_column_height tst = 0
            \<and> img_width img = left_column_width + 2 * GRID_SPACING)
      \<and> (\<forall>t0 ts. tst = t0 # ts \<longrightarrow>
            img_width img =
              left_column_width + 2 * GRID_SPACING
              + (int (max (fst (get_grid_size (dict_get (pair_input t0))))
                          (if dict_get (pair_output t0) \<noteq> []
                           then fst (get_grid_size (dict_get (pair_output t0)))
                           else fst (get_grid_size (dict_get (pair_input t0)))))
                 * (CELL_SIZE + GRID_PADDING)
                 + 2 * MARGIN)
            \<and> test_column_height tst =
              LABEL_HEIGHT + LABEL_HEIGHT
              + int (snd (get_grid_size (dict_get (pair_input t0)))) * (CELL_SIZE + GRID_PADDING)
              + GRID_SPACING + LABEL_HEIGHT
              + int (if dict_get (pair_output t0) \<noteq> []
                     then snd (get_grid_size (dict_get (pair_output t0)))
                     else snd (get_grid_size (dict_get (pair_input t0))))
                * (CELL_SIZE + GRID_PADDING)
            \<and> (\<exists>ops_right.
                  ops img = fst (draw_examples MARGIN None (train_infos trn)) @ ops_right
                  \<and> take 2 ops_right = [Text test_x MARGIN ''Test'' (0, 0, 0),
                                        Text test_x (MARGIN + LABEL_HEIGHT) ''Input'' (0, 0, 0)]
                  \<and> (\<forall>op \<in> set ops_right. test_x \<le> op_x op)
                  \<and> ops_right =
                      [Text test_x MARGIN ''Test'' (0, 0, 0),
                       Text test_x (MARGIN + LABEL_HEIGHT) ''Input'' (0, 0, 0)]
                      @ draw_grid (dict_get (pair_input t0)) test_x
                          (MARGIN + LABEL_HEIGHT + LABEL_HEIGHT) CELL_SIZE GRID_PADDING
                      @ [Text test_x
                           ((case snd (draw_examples MARGIN None (train_infos trn)) of
                               Some y \<Rightarrow> y
                             | None \<Rightarrow>
                                 MARGIN + LABEL_HEIGHT + LABEL_HEIGHT
                                 + (int (snd (get_grid_size (dict_get (pair_input t0))))
                                    * (CELL_SIZE + GRID_PADDING) + GRID_SPACING)
                                 + LABEL_HEIGHT)
                            - LABEL_HEIGHT)
                           ''Output'' (0, 0, 0)]
                      @ draw_blank_grid
                          (if dict_get (pair_output t0) \<noteq> []
                           then fst (get_grid_size (dict_get (pair_output t0)))
                           else fst (get_grid_size (dict_get (pair_input t0))))
                          (if dict_get (pair_output t0) \<noteq> []
                           then snd (get_grid_size (dict_get (pair_output t0)))
                           else snd (get_grid_size (dict_get (pair_input t0))))
                          test_x
                          (case snd (draw_examples MARGIN None (train_infos trn)) of
                             Some y \<Rightarrow> y
                           | None \<Rightarrow>
                               MARGIN + LABEL_HEIGHT + LABEL_HEIGHT
                               + (int (snd (get_grid_size (dict_get (pair_input t0))))
                                  * (CELL_SIZE + GRID_PADDING) + GRID_SPACING)
                               + LABEL_HEIGHT)
                          CELL_SIZE GRID_PADDING))"
proof (cases tst)
  case Nil
  with assms(2,3) have "dict_get (test data) = []" and "dict_get (train data) \<noteq> []"
    using assms(1) by simp_all
  from create_puzzle_image_no_test [OF this] assms(1,4) Nil show ?thesis
    by (simp add: examples_height_sum [symmetric] examples_width_fold [symmetric]
        test_column_height_Nil)
next
  case (Cons t0 ts)
  with assms(2) have t: "dict_get (test data) = t0 # ts" by simp
  let ?inp = "dict_get (pair_input t0)"
  let ?out = "dict_get (pair_output t0)"
  let ?ow = "if ?out \<noteq> [] then fst (get_grid_size ?out) else fst (get_grid_size ?inp)"
  let ?oh = "if ?out \<noteq> [] then snd (get_grid_size ?out) else snd (get_grid_size ?inp)"
  let ?left = "draw_examples MARGIN None (train_infos trn)"
  let ?ty = "case snd ?left of
               Some y \<Rightarrow> y
             | None \<Rightarrow> MARGIN + LABEL_HEIGHT + LABEL_HEIGHT
                 + (int (snd (get_grid_size ?inp)) * (CELL_SIZE + GRID_PADDING) + GRID_SPACING)
                 + LABEL_HEIGHT"
  let ?right = "[Text test_x MARGIN ''Test'' (0, 0, 0),
                 Text test_x (MARGIN + LABEL_HEIGHT) ''Input'' (0, 0, 0)]
                @ draw_grid ?inp test_x (MARGIN + LABEL_HEIGHT + LABEL_HEIGHT)
                    CELL_SIZE GRID_PADDING
                @ [Text test_x (?ty - LABEL_HEIGHT) ''Output'' (0, 0, 0)]
                @ draw_blank_grid ?ow ?oh test_x ?ty CELL_SIZE GRID_PADDING"
  have tx: "examples_width trn + 2 * MARGIN + GRID_SPACING * 2 + MARGIN = test_x"
    using assms(4,5) by simp
  have right_x: "\<forall>op \<in> set ?right. test_x \<le> op_x op"
    by (auto dest: draw_grid_op_x [OF cell_step_nonneg] draw_blank_grid_op_x [OF cell_step_nonneg])
  have right_head: "take 2 ?right = [Text test_x MARGIN ''Test'' (0, 0, 0),
                                     Text test_x (MARGIN + LABEL_HEIGHT) ''Input'' (0, 0, 0)]"
    by simp
  let ?img = "\<lparr>img_width = examples_width trn + 2 * MARGIN + GRID_SPACING * 2
                          + (int (max (fst (get_grid_size ?inp)) ?ow) * (CELL_SIZE + GRID_PADDING)
                             + 2 * MARGIN),
              img_height = max (examples_height trn) (test_column_height tst) + MARGIN,
              background = (255, 255, 255),
              ops = fst ?left @ ?right\<rparr>"
  have img: "create_puzzle_image data = Inr ?img"
    unfolding create_puzzle_image_with_test [OF t] Cons test_column_height_Cons
    using assms(1) tx by (simp add: Let_def)
  have "img_height ?img = max (examples_height trn) (test_column_height tst) + MARGIN"
    by simp
  moreover have "ops ?img = fst ?left @ ?right" by simp
  moreover have "img_width ?img =
              left_column_width + 2 * GRID_SPACING
              + (int (max (fst (get_grid_size ?inp)) ?ow) * (CELL_SIZE + GRID_PADDING)
                 + 2 * MARGIN)"
    using assms(4) by simp
  moreover have "\<exists>ops_right.
                  ops ?img = fst ?left @ ops_right
                  \<and> take 2 ops_right = [Text test_x MARGIN ''Test'' (0, 0, 0),
                                        Text test_x (MARGIN + LABEL_HEIGHT) ''Input'' (0, 0, 0)]
                  \<and> (\<forall>op \<in> set ops_right. test_x \<le> op_x op)
                  \<and> ops_right = ?right"
  proof (intro exI [of _ ?right] conjI)
    show "ops ?img = fst ?left @ ?right" by simp
    show "take 2 ?right = [Text test_x MARGIN ''Test'' (0, 0, 0),
                           Text test_x (MARGIN + LABEL_HEIGHT) ''Input'' (0, 0, 0)]"
      by (rule right_head)
    show "\<forall>op \<in> set ?right. test_x \<le> op_x op" by (rule right_x)
    show "?right = ?right" by (rule refl)
  qed
  ultimately show ?thesis
    using img Cons
    by (intro exI [of _ ?img])
       (simp only: examples_height_sum [symmetric] examples_width_fold [symmetric]
          test_column_height_Cons, blast)
qed

theorem puzzle_canvas_height_and_test_offset_witness:
  "length (dict_get (train doc_two_examples)) = 2
   \<and> length (dict_get (test doc_two_examples)) = 1
   \<and> examples_width (dict_get (train doc_two_examples)) + 2 * MARGIN = 100
   \<and> examples_height (dict_get (train doc_two_examples)) = 200
   \<and> test_column_height (dict_get (test doc_two_examples)) = 190
   \<and> (\<exists>img. create_puzzle_image doc_two_examples = Inr img
        \<and> img_height img = 220
        \<and> (\<exists>ops_right.
              ops img = fst (draw_examples MARGIN None
                               (train_infos (dict_get (train doc_two_examples)))) @ ops_right
              \<and> take 2 ops_right = [Text 160 20 ''Test'' (0, 0, 0),
                                    Text 160 50 ''Input'' (0, 0, 0)]
              \<and> list_all (\<lambda>op. 160 \<le> op_x op) ops_right
              \<and> ops_right =
                  [Text 160 20 ''Test'' (0, 0, 0),
                   Text 160 50 ''Input'' (0, 0, 0),
                   Rectangle 160 80 179 99 (46, 204, 64) (100, 100, 100),
                   Text 160 150 ''Output'' (0, 0, 0),
                   Rectangle 160 180 179 199 (255, 255, 255) (200, 200, 200),
                   Rectangle 160 200 179 219 (255, 255, 255) (200, 200, 200),
                   Rectangle 160 220 179 239 (255, 255, 255) (200, 200, 200)]))"
proof -
  let ?e = "\<lparr>pair_input = Some [[1]], pair_output = Some [[2]]\<rparr>"
  let ?t = "\<lparr>pair_input = Some [[3]], pair_output = Some [[4], [4], [4]]\<rparr>"
  let ?right = "[Text 160 20 ''Test'' (0, 0, 0),
                 Text 160 50 ''Input'' (0, 0, 0),
                 Rectangle 160 80 179 99 (46, 204, 64) (100, 100, 100),
                 Text 160 150 ''Output'' (0, 0, 0),
                 Rectangle 160 180 179 199 (255, 255, 255) (200, 200, 200),
                 Rectangle 160 200 179 219 (255, 255, 255) (200, 200, 200),
                 Rectangle 160 220 179 239 (255, 255, 255) (200, 200, 200)]"
  have ne: "[?e, ?e] \<noteq> [] \<or> [?t] \<noteq> []" by simp
  have eh: "examples_height [?e, ?e] = 200"
    by (simp add: examples_height_sum pair_height_def dict_get_def get_grid_size_def layout_consts)
  have th: "test_column_height [?t] = 190"
    by (simp add: test_column_height_Cons dict_get_def get_grid_size_def layout_consts)
  have tx: "examples_width [?e, ?e] + 2 * MARGIN + 2 * GRID_SPACING + MARGIN = 160"
    by (simp add: examples_width_one_cell_pairs layout_consts)
  have e2: "snd (draw_examples MARGIN None (train_infos [?e, ?e])) = Some 180"
    unfolding draw_examples_two
    by (simp add: draw_example_parts pair_height_def dict_get_def get_grid_size_def Let_def
        layout_consts)
  from puzzle_canvas_height_and_test_offset
         [OF train_doc_two_examples test_doc_two_examples ne refl refl]
  obtain img ops_right where "create_puzzle_image doc_two_examples = Inr img"
    and "img_height img = max (examples_height [?e, ?e]) (test_column_height [?t]) + MARGIN"
    and "ops img = fst (draw_examples MARGIN None (train_infos [?e, ?e])) @ ops_right"
    and "ops_right =
           [Text (examples_width [?e, ?e] + 2 * MARGIN + 2 * GRID_SPACING + MARGIN) MARGIN
              ''Test'' (0, 0, 0),
            Text (examples_width [?e, ?e] + 2 * MARGIN + 2 * GRID_SPACING + MARGIN)
              (MARGIN + LABEL_HEIGHT) ''Input'' (0, 0, 0)]
           @ draw_grid (dict_get (pair_input ?t))
               (examples_width [?e, ?e] + 2 * MARGIN + 2 * GRID_SPACING + MARGIN)
               (MARGIN + LABEL_HEIGHT + LABEL_HEIGHT) CELL_SIZE GRID_PADDING
           @ [Text (examples_width [?e, ?e] + 2 * MARGIN + 2 * GRID_SPACING + MARGIN)
                ((case snd (draw_examples MARGIN None (train_infos [?e, ?e])) of
                    Some y \<Rightarrow> y
                  | None \<Rightarrow>
                      MARGIN + LABEL_HEIGHT + LABEL_HEIGHT
                      + (int (snd (get_grid_size (dict_get (pair_input ?t))))
                         * (CELL_SIZE + GRID_PADDING) + GRID_SPACING)
                      + LABEL_HEIGHT)
                 - LABEL_HEIGHT)
                ''Output'' (0, 0, 0)]
           @ draw_blank_grid
               (if dict_get (pair_output ?t) \<noteq> []
                then fst (get_grid_size (dict_get (pair_output ?t)))
                else fst (get_grid_size (dict_get (pair_input ?t))))
               (if dict_get (pair_output ?t) \<noteq> []
                then snd (get_grid_size (dict_get (pair_output ?t)))
                else snd (get_grid_size (dict_get (pair_input ?t))))
               (examples_width [?e, ?e] + 2 * MARGIN + 2 * GRID_SPACING + MARGIN)
               (case snd (draw_examples MARGIN None (train_infos [?e, ?e])) of
                  Some y \<Rightarrow> y
                | None \<Rightarrow>
                    MARGIN + LABEL_HEIGHT + LABEL_HEIGHT
                    + (int (snd (get_grid_size (dict_get (pair_input ?t))))
                       * (CELL_SIZE + GRID_PADDING) + GRID_SPACING)
                    + LABEL_HEIGHT)
               CELL_SIZE GRID_PADDING"
    by blast
  then have img: "create_puzzle_image doc_two_examples = Inr img"
    and h: "img_height img = 220"
    and o: "ops img = fst (draw_examples MARGIN None (train_infos [?e, ?e])) @ ops_right"
    and r: "ops_right = ?right"
    unfolding tx eh th e2
    by (simp_all add: dict_get_def get_grid_size_def draw_grid_def draw_blank_grid_def
        cell_color_def arc_color_def ARC_COLORS_def layout_consts)
  have "take 2 ?right = [Text 160 20 ''Test'' (0, 0, 0), Text 160 50 ''Input'' (0, 0, 0)]"
    and "list_all (\<lambda>op. 160 \<le> op_x op) ?right"
    by simp_all
  with img h o r have "\<exists>img. create_puzzle_image doc_two_examples = Inr img
        \<and> img_height img = 220
        \<and> (\<exists>ops_right.
              ops img = fst (draw_examples MARGIN None
                               (train_infos (dict_get (train doc_two_examples)))) @ ops_right
              \<and> take 2 ops_right = [Text 160 20 ''Test'' (0, 0, 0),
                                    Text 160 50 ''Input'' (0, 0, 0)]
              \<and> list_all (\<lambda>op. 160 \<le> op_x op) ops_right
              \<and> ops_right = ?right)"
    unfolding train_doc_two_examples by blast
  then show ?thesis
    by (simp add: train_doc_two_examples test_doc_two_examples eh th
        examples_width_one_cell_pairs layout_consts)
qed

text \<open>
  The claim as it was stated puts the test column at exactly the left column's width
  plus twice the grid spacing. In the document below that sum is 140, and everything of
  the test column is drawn from 160 on: the program adds \<open>MARGIN\<close> once more.
\<close>

theorem puzzle_test_offset_counterexample:
  "examples_width (dict_get (train doc_two_examples)) + 2 * MARGIN + 2 * GRID_SPACING = 140
   \<and> create_puzzle_image doc_two_examples =
     Inr \<lparr>img_width = 200, img_height = 220, background = (255, 255, 255),
          ops = [Text 20 20 ''Example 1'' (0, 0, 0),
                 Text 20 50 ''Input'' (0, 0, 0),
                 Rectangle 20 80 39 99 (0, 116, 217) (100, 100, 100),
                 Text 60 50 ''Output'' (0, 0, 0),
                 Rectangle 60 80 79 99 (255, 65, 54) (100, 100, 100),
                 Text 20 120 ''Example 2'' (0, 0, 0),
                 Text 20 150 ''Input'' (0, 0, 0),
                 Rectangle 20 180 39 199 (0, 116, 217) (100, 100, 100),
                 Text 60 150 ''Output'' (0, 0, 0),
                 Rectangle 60 180 79 199 (255, 65, 54) (100, 100, 100),
                 Text 160 20 ''Test'' (0, 0, 0),
                 Text 160 50 ''Input'' (0, 0, 0),
                 Rectangle 160 80 179 99 (46, 204, 64) (100, 100, 100),
                 Text 160 150 ''Output'' (0, 0, 0),
                 Rectangle 160 180 179 199 (255, 255, 255) (200, 200, 200),
                 Rectangle 160 200 179 219 (255, 255, 255) (200, 200, 200),
                 Rectangle 160 220 179 239 (255, 255, 255) (200, 200, 200)]\<rparr>"
  by (simp add: puzzle_doc_two_examples train_doc_two_examples examples_width_one_cell_pairs
      layout_consts)

subsection \<open>The aligned blank grid and the canvas\<close>

text \<open>
  Claim C10 at a concrete document. With two training pairs the blank test output is
  aligned to Example 2, while the canvas height comes from the stacked test column.
  For \<open>doc_two_examples\<close> the examples column needs 200 and the stacked test column 190,
  so the canvas is 220 high (rows 0 to 219); the last cell of the blank grid is drawn
  over the rows 220 to 239, wholly below the canvas.
\<close>

theorem puzzle_blank_grid_below_canvas:
  "length (dict_get (train doc_two_examples)) = 2
   \<and> examples_height (dict_get (train doc_two_examples)) = 200
   \<and> test_column_height (dict_get (test doc_two_examples)) = 190
   \<and> img_height (projr (create_puzzle_image doc_two_examples)) = 220
   \<and> last (ops (projr (create_puzzle_image doc_two_examples)))
       = Rectangle 160 220 179 239 (255, 255, 255) (200, 200, 200)"
  unfolding train_doc_two_examples test_doc_two_examples puzzle_doc_two_examples
  by (simp add: examples_height_sum pair_height_def test_column_height_Cons dict_get_def
      get_grid_size_def layout_consts)

text \<open>
  The stacked layout, used with fewer than two training pairs, keeps the blank grid on
  the canvas; with two or more training pairs the aligned blank grid fits exactly when
  the inequality on the right holds, which the computed height does not ensure.
\<close>

lemma stacked_blank_grid_fits:
  assumes "dict_get (train data) = trn" and "length trn < 2"
    and "dict_get (test data) = t0 # ts"
    and "dict_get (pair_input t0) = inp" and "dict_get (pair_output t0) = out"
    and "oh = (if out \<noteq> [] then snd (get_grid_size out) else snd (get_grid_size inp))"
    and "test_output_y = MARGIN + LABEL_HEIGHT + LABEL_HEIGHT
           + (int (snd (get_grid_size inp)) * (CELL_SIZE + GRID_PADDING) + GRID_SPACING)
           + LABEL_HEIGHT"
  shows "\<exists>img. create_puzzle_image data = Inr img
           \<and> test_output_y + int oh * (CELL_SIZE + GRID_PADDING) \<le> img_height img"
proof -
  have "snd (draw_examples MARGIN None (train_infos trn)) = None"
    using assms(2) by (rule draw_examples_short)
  then show ?thesis
    unfolding create_puzzle_image_with_test [OF assms(3)]
    using assms(1,4,5,6,7) by (simp add: Let_def layout_consts)
qed

lemma aligned_blank_grid_bottom:
  assumes "dict_get (train data) = e0 # e1 # es"
    and "dict_get (test data) = t0 # ts"
    and "dict_get (pair_input t0) = inp" and "dict_get (pair_output t0) = out"
    and "ih = snd (get_grid_size inp)"
    and "oh = (if out \<noteq> [] then snd (get_grid_size out) else ih)"
    and "test_output_y = MARGIN + LABEL_HEIGHT + (LABEL_HEIGHT + pair_height e0 + GRID_SPACING)
           + LABEL_HEIGHT + LABEL_HEIGHT"
  shows "\<exists>img. create_puzzle_image data = Inr img
           \<and> (test_output_y + int oh * (CELL_SIZE + GRID_PADDING) \<le> img_height img
                \<longleftrightarrow> 160 + pair_height e0 + int oh * 20
                     \<le> max (examples_height (e0 # e1 # es)) (110 + int ih * 20 + int oh * 20) + 20)"
  unfolding create_puzzle_image_with_test [OF assms(2)]
  using assms(1,3,4,5,6,7) by (simp add: Let_def layout_consts)

subsection \<open>The test output's cells never reach the puzzle or the test image\<close>

text \<open>
  Claim C4. Two documents with the same training pairs whose test pairs agree, one by
  one, on the input and on the dimensions of the output (as \<open>get_grid_size\<close> reads them:
  the number of rows and the length of the first row) have the same puzzle composition
  and the same test composition, whatever the cells of the outputs are. The blank grid
  is drawn from a width and a height alone: it issues \<open>height * width\<close> draw calls and
  nothing else, the call for the cell \<open>(y, x)\<close> being the square of side \<open>cell_size\<close> at
  that cell's position, filled white with the outline \<open>(200, 200, 200)\<close>.
\<close>

theorem test_output_cells_do_not_matter:
  assumes "train d1 = train d2"
    and "list_all2 (\<lambda>p q. pair_input p = pair_input q
                          \<and> get_grid_size (dict_get (pair_output p))
                              = get_grid_size (dict_get (pair_output q)))
           (dict_get (test d1)) (dict_get (test d2))"
  shows "create_puzzle_image d1 = create_puzzle_image d2
       \<and> create_test_image d1 = create_test_image d2
       \<and> (\<forall>op \<in> set (draw_blank_grid width height x_offset y_offset cell_size grid_padding).
             \<exists>x0 y0 x1 y1. op = Rectangle x0 y0 x1 y1 (255, 255, 255) (200, 200, 200))
       \<and> length (draw_blank_grid width height x_offset y_offset cell_size grid_padding)
           = height * width
       \<and> (\<forall>y x. y < height \<and> x < width \<longrightarrow>
             draw_blank_grid width height x_offset y_offset cell_size grid_padding
               ! (y * width + x)
             = Rectangle (x_offset + int x * (cell_size + grid_padding))
                         (y_offset + int y * (cell_size + grid_padding))
                         (x_offset + int x * (cell_size + grid_padding) + cell_size - 1)
                         (y_offset + int y * (cell_size + grid_padding) + cell_size - 1)
                         (255, 255, 255) (200, 200, 200))"
proof -
  have cells: "length (draw_blank_grid width height x_offset y_offset cell_size grid_padding)
           = height * width
       \<and> (\<forall>y x. y < height \<and> x < width \<longrightarrow>
             draw_blank_grid width height x_offset y_offset cell_size grid_padding
               ! (y * width + x)
             = Rectangle (x_offset + int x * (cell_size + grid_padding))
                         (y_offset + int y * (cell_size + grid_padding))
                         (x_offset + int x * (cell_size + grid_padding) + cell_size - 1)
                         (y_offset + int y * (cell_size + grid_padding) + cell_size - 1)
                         (255, 255, 255) (200, 200, 200))"
    by (simp add: draw_blank_grid_length draw_blank_grid_nth)
  have blank: "\<forall>op \<in> set (draw_blank_grid width height x_offset y_offset cell_size grid_padding).
             \<exists>x0 y0 x1 y1. op = Rectangle x0 y0 x1 y1 (255, 255, 255) (200, 200, 200)"
    by (blast dest: draw_blank_grid_white)
  show ?thesis
  proof (cases "dict_get (test d1)")
    case Nil
    with assms(2) have nil2: "dict_get (test d2) = []" by simp
    from Nil nil2 assms(1) have "create_puzzle_image d1 = create_puzzle_image d2"
      by (rule create_puzzle_image_test_Nil)
    moreover from Nil nil2 have "create_test_image d1 = create_test_image d2"
      by (simp add: create_test_image_cases)
    ultimately show ?thesis using blank cells by blast
  next
    case (Cons t1 ts1)
    with assms(2) obtain t2 ts2 where t2: "dict_get (test d2) = t2 # ts2"
      and inp: "pair_input t1 = pair_input t2"
      and size: "get_grid_size (dict_get (pair_output t1)) = get_grid_size (dict_get (pair_output t2))"
      by (auto simp add: list_all2_Cons1)
    from size have empty: "dict_get (pair_output t1) = [] \<longleftrightarrow> dict_get (pair_output t2) = []"
      by (rule get_grid_size_empty_iff)
    have "create_puzzle_image d1 = create_puzzle_image d2"
      unfolding create_puzzle_image_with_test [OF Cons] create_puzzle_image_with_test [OF t2]
      using assms(1) inp size empty by (simp add: Let_def)
    moreover have "create_test_image d1 = create_test_image d2"
      unfolding create_test_image_cases
      using Cons t2 inp size empty by (simp add: Let_def)
    ultimately show ?thesis using blank cells by blast
  qed
qed

theorem test_output_cells_do_not_matter_witness:
  "pair_output (hd (dict_get (test doc_two_examples))) = Some [[4], [4], [4]]
   \<and> pair_output (hd (dict_get (test doc_two_examples_other))) = Some [[7], [8, 9], [1]]
   \<and> create_puzzle_image doc_two_examples = create_puzzle_image doc_two_examples_other
   \<and> create_test_image doc_two_examples = create_test_image doc_two_examples_other
   \<and> list_all (\<lambda>op. \<exists>x0 y0 x1 y1. op = Rectangle x0 y0 x1 y1 (255, 255, 255) (200, 200, 200))
        (draw_blank_grid 1 3 160 180 20 0)
   \<and> length (draw_blank_grid 1 3 160 180 20 0) = 3
   \<and> draw_blank_grid 1 3 160 180 20 0 ! 0
       = Rectangle 160 180 179 199 (255, 255, 255) (200, 200, 200)
   \<and> draw_blank_grid 1 3 160 180 20 0 ! 1
       = Rectangle 160 200 179 219 (255, 255, 255) (200, 200, 200)
   \<and> draw_blank_grid 1 3 160 180 20 0 ! 2
       = Rectangle 160 220 179 239 (255, 255, 255) (200, 200, 200)"
proof -
  have tr: "train doc_two_examples = train doc_two_examples_other"
    by (simp add: doc_two_examples_def doc_two_examples_other_def)
  have te: "list_all2 (\<lambda>p q. pair_input p = pair_input q
                          \<and> get_grid_size (dict_get (pair_output p))
                              = get_grid_size (dict_get (pair_output q)))
           (dict_get (test doc_two_examples)) (dict_get (test doc_two_examples_other))"
    by (simp add: doc_two_examples_def doc_two_examples_other_def dict_get_def get_grid_size_def)
  note w = test_output_cells_do_not_matter [OF tr te, of 1 3 160 180 20 0]
  from w have eq: "create_puzzle_image doc_two_examples = create_puzzle_image doc_two_examples_other
      \<and> create_test_image doc_two_examples = create_test_image doc_two_examples_other"
    and white: "list_all (\<lambda>op. \<exists>x0 y0 x1 y1.
                   op = Rectangle x0 y0 x1 y1 (255, 255, 255) (200, 200, 200))
                 (draw_blank_grid 1 3 160 180 20 0)"
    and len: "length (draw_blank_grid 1 3 160 180 20 0) = 3"
    and nth: "\<forall>y x. y < 3 \<and> x < 1 \<longrightarrow>
               draw_blank_grid 1 3 160 180 20 0 ! (y * 1 + x)
               = Rectangle (160 + int x * (20 + 0)) (180 + int y * (20 + 0))
                   (160 + int x * (20 + 0) + 20 - 1) (180 + int y * (20 + 0) + 20 - 1)
                   (255, 255, 255) (200, 200, 200)"
    by (simp_all add: list_all_iff)
  from nth [rule_format, of 0 0] nth [rule_format, of 1 0] nth [rule_format, of 2 0]
  have "draw_blank_grid 1 3 160 180 20 0 ! 0
          = Rectangle 160 180 179 199 (255, 255, 255) (200, 200, 200)"
    and "draw_blank_grid 1 3 160 180 20 0 ! 1
          = Rectangle 160 200 179 219 (255, 255, 255) (200, 200, 200)"
    and "draw_blank_grid 1 3 160 180 20 0 ! 2
          = Rectangle 160 220 179 239 (255, 255, 255) (200, 200, 200)"
    by simp_all
  with eq white len show ?thesis
    by (simp add: doc_two_examples_def doc_two_examples_other_def dict_get_def)
qed

subsection \<open>Failure handling of the driver\<close>

text \<open>
  Claim C3, as amended. \<open>main\<close> attempts the compositions in the order puzzle,
  examples, test, answer. A failure of the puzzle or of the examples composition (of
  building the image or of saving it) ends the run at once: the later compositions are
  not attempted. A failure of the test composition never prevents the answer
  composition from being attempted. The exit status is 0 or 1, and it is nonzero
  exactly when a fatal failure occurs: a puzzle or examples failure of any kind, or an
  answer failure that is not a \<open>ValueError\<close> (NoData). Every attempted composition
  leaves exactly one line, \<open>Created\<close> on the output stream together with its file, or a
  message on the error stream.
\<close>

theorem main_attempts_and_exit_status:
  assumes "fp = step_failure save output_dir base_name ''puzzle'' (create_puzzle_image data)"
    and "fe = step_failure save output_dir base_name ''examples'' (create_examples_image data)"
    and "ft = step_failure save output_dir base_name ''test'' (create_test_image data)"
    and "fa = step_failure save output_dir base_name ''answer'' (create_answer_image data)"
    and "main data output_dir base_name save = (status, p)"
  shows "attempted p =
           (if fp \<noteq> None then [''puzzle'']
            else if fe \<noteq> None then [''puzzle'', ''examples'']
            else [''puzzle'', ''examples'', ''test'', ''answer''])
       \<and> (status \<noteq> 0 \<longleftrightarrow> fp \<noteq> None \<or> fe \<noteq> None \<or> (\<exists>m. fa = Some (OtherException m)))
       \<and> (status = 0 \<or> status = 1)
       \<and> length (files p) = length (stdout p)
       \<and> length (stdout p) + length (stderr p) = length (attempted p)"
  using assms(5) unfolding assms(1-4) main_def try_create_step_failure
  by (auto simp add: Let_def enter_def eprint_def split: option.splits exn.splits)

theorem main_attempts_and_exit_status_witness:
  "fst (main doc_roundtrip ''out'' ''x'' (\<lambda>path img. None)) = 0
   \<and> attempted (snd (main doc_roundtrip ''out'' ''x'' (\<lambda>path img. None)))
       = [''puzzle'', ''examples'', ''test'', ''answer'']
   \<and> create_answer_image doc_roundtrip = Inl (ValueError ''No test output found'')
   \<and> fst (main doc_two_examples ''out'' ''x'' save_answer_fails) = 1
   \<and> attempted (snd (main doc_two_examples ''out'' ''x'' save_answer_fails))
       = [''puzzle'', ''examples'', ''test'', ''answer'']"
proof -
  have tr1: "dict_get (train doc_roundtrip) \<noteq> []" and tr2: "dict_get (train doc_two_examples) \<noteq> []"
    by (simp_all add: train_doc_roundtrip train_doc_two_examples)
  have "\<not> isl (create_puzzle_image doc_roundtrip)"
    and "\<not> isl (create_examples_image doc_roundtrip)"
    and "\<not> isl (create_puzzle_image doc_two_examples)"
    and "\<not> isl (create_examples_image doc_two_examples)"
    using tr1 tr2 by (simp_all add: isl_create_puzzle_image isl_create_examples_image)
  then obtain pz1 ex1 pz2 ex2 where
    pz1: "create_puzzle_image doc_roundtrip = Inr pz1"
    and ex1: "create_examples_image doc_roundtrip = Inr ex1"
    and pz2: "create_puzzle_image doc_two_examples = Inr pz2"
    and ex2: "create_examples_image doc_two_examples = Inr ex2"
    by (blast dest: not_isl_obtain)
  have an1: "create_answer_image doc_roundtrip = Inl (ValueError ''No test output found'')"
    unfolding create_answer_image_cases test_doc_roundtrip by (simp add: dict_get_def)
  obtain an2 where an2: "create_answer_image doc_two_examples = Inr an2"
    unfolding create_answer_image_cases test_doc_two_examples by (simp add: dict_get_def)
  note a = main_attempts_and_exit_status
    [OF refl refl refl refl prod.collapse [symmetric],
     of doc_roundtrip "''out''" "''x''" "\<lambda>path img. None"]
  note b = main_attempts_and_exit_status
    [OF refl refl refl refl prod.collapse [symmetric],
     of doc_two_examples "''out''" "''x''" save_answer_fails]
  from a have "fst (main doc_roundtrip ''out'' ''x'' (\<lambda>path img. None)) = 0
      \<and> attempted (snd (main doc_roundtrip ''out'' ''x'' (\<lambda>path img. None)))
         = [''puzzle'', ''examples'', ''test'', ''answer'']"
    by (simp add: step_failure_save_ok pz1 ex1 an1)
  moreover from b have "fst (main doc_two_examples ''out'' ''x'' save_answer_fails) = 1
      \<and> attempted (snd (main doc_two_examples ''out'' ''x'' save_answer_fails))
         = [''puzzle'', ''examples'', ''test'', ''answer'']"
    by (auto simp add: step_failure_Inr pz2 ex2 an2 save_answer_fails_def)
  ultimately show ?thesis using an1 by simp
qed

text \<open>
  The claim as it was stated has every composition attempted whatever happens to the
  others. For a document with a test pair and no training pair the examples composition
  fails, the run ends with status 1, and neither the test nor the answer composition is
  attempted, although both would have succeeded.
\<close>

theorem main_stops_at_examples_counterexample:
  "fst (main doc_no_train ''out'' ''x'' (\<lambda>path img. None)) = 1
   \<and> attempted (snd (main doc_no_train ''out'' ''x'' (\<lambda>path img. None))) = [''puzzle'', ''examples'']
   \<and> map fst (files (snd (main doc_no_train ''out'' ''x'' (\<lambda>path img. None)))) = [''out/x-puzzle.png'']
   \<and> stderr (snd (main doc_no_train ''out'' ''x'' (\<lambda>path img. None)))
       = [''Error creating examples image: No train data found'']
   \<and> \<not> isl (create_test_image doc_no_train)
   \<and> \<not> isl (create_answer_image doc_no_train)"
proof -
  have tr: "dict_get (train doc_no_train) = []"
    and te: "dict_get (test doc_no_train) = [\<lparr>pair_input = Some [[3]], pair_output = Some [[4]]\<rparr>]"
    by (simp_all add: doc_no_train_def dict_get_def)
  have "\<not> isl (create_puzzle_image doc_no_train)"
    by (simp add: isl_create_puzzle_image te)
  then obtain pz where pz: "create_puzzle_image doc_no_train = Inr pz"
    by (blast dest: not_isl_obtain)
  have ex: "create_examples_image doc_no_train = Inl (ValueError ''No train data found'')"
    using tr by (rule create_examples_image_no_train)
  have "main doc_no_train ''out'' ''x'' (\<lambda>path img. None) =
          (1, \<lparr>stdout = [''Created: out/x-puzzle.png''],
               stderr = [''Error creating examples image: No train data found''],
               files = [(''out/x-puzzle.png'', pz)],
               attempted = [''puzzle'', ''examples'']\<rparr>)"
    by (simp add: main_def try_create_def pz ex enter_def eprint_def exn_str_def Let_def)
  moreover have "\<not> isl (create_test_image doc_no_train)"
    unfolding create_test_image_cases te by (simp add: dict_get_def Let_def)
  moreover have "\<not> isl (create_answer_image doc_no_train)"
    unfolding create_answer_image_cases te by (simp add: dict_get_def)
  ultimately show ?thesis by simp
qed

end
